theory Spec2Isabelle
  imports Main "HOL-Library.Monad_Syntax"
begin

section \<open>Python values\<close>

text \<open>
  The two modules are dynamically typed: a log record's attributes, the override map and
  an OCR result hold arbitrary Python objects. \<open>pyval\<close> is the universe of those objects.
  A \<open>str\<close> is the list of its UTF-8 bytes (the files are written with that encoding).
  \<open>PObj s\<close> is any other object (a set, an exception, a path object, ...) as far as
  the modules can tell: it has no \<open>items\<close>, cannot be subscripted, iterated or called, is
  not a class, is not a path name, is not JSON serialisable, and \<open>str()\<close> of it is \<open>s\<close>.
  Values are trees: two entries of a container never share one mutable object.
  An exception is the value \<open>None\<close> of an \<open>option\<close>: every handler in the source is
  \<open>except Exception\<close>, which does not look at the exception's class.
\<close>

datatype pyval =
    PNone
  | PBool bool
  | PInt int
  | PStr string
  | PList "pyval list"
  | PDict "(pyval \<times> pyval) list"
  | PObj string

text \<open>Truth value of an object (\<open>not x\<close>, \<open>if x\<close>, \<open>a and b\<close>).\<close>

fun truthy :: "pyval \<Rightarrow> bool" where
  "truthy PNone = False"
| "truthy (PBool b) = b"
| "truthy (PInt i) = (i \<noteq> 0)"
| "truthy (PStr s) = (s \<noteq> [])"
| "truthy (PList xs) = (xs \<noteq> [])"
| "truthy (PDict kvs) = (kvs \<noteq> [])"
| "truthy (PObj s) = True"

text \<open>\<open>x == n\<close> for an integer literal \<open>n\<close>: \<open>True\<close> and \<open>False\<close> compare as 1 and 0.\<close>

fun py_eq_int :: "pyval \<Rightarrow> int \<Rightarrow> bool" where
  "py_eq_int (PInt i) n = (i = n)"
| "py_eq_int (PBool b) n = ((if b then 1 else 0) = n)"
| "py_eq_int v n = False"

text \<open>\<open>d[k]\<close> for a string key: \<open>KeyError\<close> or \<open>TypeError\<close> is \<open>None\<close>.\<close>

fun getitem_str :: "pyval \<Rightarrow> string \<Rightarrow> pyval option" where
  "getitem_str (PDict kvs) k = map_of kvs (PStr k)"
| "getitem_str v k = None"

text \<open>\<open>for r in x\<close>: the elements of a list, the keys of a dict, the characters of a string.\<close>

fun py_iter :: "pyval \<Rightarrow> pyval list option" where
  "py_iter (PList xs) = Some xs"
| "py_iter (PDict kvs) = Some (map fst kvs)"
| "py_iter (PStr s) = Some (map (\<lambda>c. PStr [c]) s)"
| "py_iter v = None"

text \<open>\<open>a + b\<close> where \<open>b\<close> is a string literal: a \<open>TypeError\<close> unless \<open>a\<close> is a string.\<close>

fun str_plus :: "pyval \<Rightarrow> string \<Rightarrow> string option" where
  "str_plus (PStr s) t = Some (s @ t)"
| "str_plus v t = None"

subsection \<open>Decimal numerals\<close>

definition digit_char :: "nat \<Rightarrow> char" where
  "digit_char n = ''0123456789'' ! (n mod 10)"

fun decimal :: "nat \<Rightarrow> string" where
  "decimal n = (if 10 \<le> n then decimal (n div 10) else []) @ [digit_char n]"

declare decimal.simps [simp del]

text \<open>\<open>str(i)\<close> for an integer.\<close>

definition int_str :: "int \<Rightarrow> string" where
  "int_str i = (if 0 \<le> i then decimal (nat i) else CHR ''-'' # decimal (nat (- i)))"

text \<open>
  The behaviour of the Python library that the modules call and that is outside them
  (local time, \<open>%\<close>-formatting, \<open>str\<close> of containers, path names, the caller's frame, the
  names that the class of a log record defines, the traceback that the library prints for
  an error inside a handler) is a parameter. Floating-point numbers are not part of \<open>pyval\<close>: the only ones the modules
  meet are a record's time stamps, which only the library's time conversions read; a time
  stamp is kept as a \<open>PObj\<close>.
\<close>

record datetime =
  year :: nat
  month :: nat
  day :: nat
  hour :: nat
  minute :: nat
  second :: nat
  microsecond :: nat

text \<open>
  What \<open>LogRecord.__init__\<close> takes from the place and the moment of a logging call: the
  caller's frame, the clock, the thread and the process, the exception being handled
  (\<open>sys.exc_info()\<close>) and the stack text.
\<close>

record callinfo =
  ci_pathname :: pyval
  ci_filename :: pyval
  ci_module :: pyval
  ci_lineno :: pyval
  ci_funcName :: pyval
  ci_created :: pyval
  ci_msecs :: pyval
  ci_relativeCreated :: pyval
  ci_thread :: pyval
  ci_threadName :: pyval
  ci_processName :: pyval
  ci_process :: pyval
  ci_exc_info :: pyval
  ci_stack :: pyval

record pylib =
  str_container :: "pyval \<Rightarrow> string"
  fromtimestamp :: "pyval \<Rightarrow> datetime option"
  localtime :: "pyval \<Rightarrow> datetime option"
  percent_format :: "string \<Rightarrow> pyval \<Rightarrow> string option"
  formatException :: "pyval \<Rightarrow> string"
  path_basename :: "string \<Rightarrow> string"
  filter_site :: callinfo
  class_names :: "string list"
  error_report :: "(string \<rightharpoonup> pyval) \<Rightarrow> string list"

text \<open>\<open>str(x)\<close>, also what an f-string and \<open>%s\<close> put for \<open>x\<close>.\<close>

fun py_str :: "pylib \<Rightarrow> pyval \<Rightarrow> string" where
  "py_str lib PNone = ''None''"
| "py_str lib (PBool b) = (if b then ''True'' else ''False'')"
| "py_str lib (PInt i) = int_str i"
| "py_str lib (PStr s) = s"
| "py_str lib (PObj s) = s"
| "py_str lib v = str_container lib v"

section \<open>The file system\<close>

text \<open>
  A file is its content; \<open>openable\<close> says whether \<open>open(path, "a")\<close> succeeds (the
  directory exists, the file is not locked, ...). Opening for append creates the file.
\<close>

record filesys =
  files :: "string \<rightharpoonup> string"
  openable :: "string \<Rightarrow> bool"

definition content :: "'a filesys_scheme \<Rightarrow> string \<Rightarrow> string" where
  "content w p = (case files w p of None \<Rightarrow> [] | Some s \<Rightarrow> s)"

definition open_append :: "string \<Rightarrow> 'a filesys_scheme \<Rightarrow> 'a filesys_scheme option" where
  "open_append p w = (if openable w p then Some (w\<lparr>files := (files w)(p \<mapsto> content w p)\<rparr>) else None)"

definition fwrite :: "string \<Rightarrow> string \<Rightarrow> 'a filesys_scheme \<Rightarrow> 'a filesys_scheme" where
  "fwrite p s w = w\<lparr>files := (files w)(p \<mapsto> content w p @ s)\<rparr>"

section \<open>output\_txt.py: the text output writer\<close>

record OutputTxt =
  outputPath :: string
  ingoreBlank :: pyval

definition header_open :: string where
  "header_open = [CHR 0xE2, CHR 0x89, CHR 0xA6, CHR 0x20]"

definition header_close :: string where
  "header_close = [CHR 0x20, CHR 0xE2, CHR 0x89, CHR 0xA7, CHR 0x0A]"

definition notice_no_text :: string where
  "notice_no_text = ''[Notice] No Text. '' @
     [CHR 0x0A, CHR 0xE3, CHR 0x80, CHR 0x90, CHR 0xE9, CHR 0x80, CHR 0x9A, CHR 0xE7, CHR 0x9F,
      CHR 0xA5, CHR 0xE3, CHR 0x80, CHR 0x91, CHR 0xE5, CHR 0x9B, CHR 0xBE, CHR 0xE7, CHR 0x89,
      CHR 0x87, CHR 0xE4, CHR 0xB8, CHR 0xAD, CHR 0xE6, CHR 0x9C, CHR 0xAA, CHR 0xE6, CHR 0x89,
      CHR 0xBE, CHR 0xE5, CHR 0x88, CHR 0xB0, CHR 0xE6, CHR 0x96, CHR 0x87, CHR 0xE5, CHR 0xAD,
      CHR 0x97, CHR 0xE3, CHR 0x80, CHR 0x82, CHR 0x0A]"

definition error_tail :: string where
  "error_tail =
     [CHR 0x0A, CHR 0xE3, CHR 0x80, CHR 0x90, CHR 0xE5, CHR 0xBC, CHR 0x82, CHR 0xE5, CHR 0xB8,
      CHR 0xB8, CHR 0xE3, CHR 0x80, CHR 0x91] @ ''OCR'' @
     [CHR 0xE8, CHR 0xAF, CHR 0x86, CHR 0xE5, CHR 0x88, CHR 0xAB, CHR 0xE5, CHR 0xA4, CHR 0xB1,
      CHR 0xE8, CHR 0xB4, CHR 0xA5, CHR 0xE3, CHR 0x80, CHR 0x82, CHR 0x0A]"

text \<open>The loop \<open>for r in res["data"]: textOut += r["text"] + "\n"\<close>.\<close>

fun add_fragments :: "string \<Rightarrow> pyval list \<Rightarrow> string option" where
  "add_fragments textOut [] = Some textOut"
| "add_fragments textOut (r # rs) =
     do {
       text \<leftarrow> getitem_str r ''text'';
       line \<leftarrow> str_plus text [CHR 0x0A];
       add_fragments (textOut @ line) rs
     }"

text \<open>
  \<open>OutputTxt.print\<close>. The result is \<open>None\<close> when the call raises; the file is touched
  only by the last statement, so a call that raises appends nothing.
\<close>

definition OutputTxt_print ::
  "pylib \<Rightarrow> OutputTxt \<Rightarrow> pyval \<Rightarrow> filesys \<Rightarrow> filesys option" where
  "OutputTxt_print lib self res w =
     do {
       code \<leftarrow> getitem_str res ''code'';
       if \<not> py_eq_int code 100 \<and> truthy (ingoreBlank self) then Some w
       else do {
         fileName \<leftarrow> getitem_str res ''fileName'';
         let textOut = header_open @ py_str lib fileName @ header_close;
         textOut \<leftarrow>
           (if py_eq_int code 100 then
              do {
                data \<leftarrow> getitem_str res ''data'';
                rs \<leftarrow> py_iter data;
                add_fragments textOut rs
              }
            else if py_eq_int code 101 then Some (textOut @ notice_no_text)
            else
              do {
                data \<leftarrow> getitem_str res ''data'';
                Some (textOut @ ''[Error] OCR failed. Code: '' @ py_str lib code @ '', Msg: '' @
                      py_str lib data @ error_tail)
              });
         let textOut = textOut @ [CHR 0x0A];
         w' \<leftarrow> open_append (outputPath self) w;
         Some (fwrite (outputPath self) textOut w')
       }
     }"

section \<open>umi\_log.py: log records\<close>

text \<open>
  A \<open>LogRecord\<close> is its instance dictionary, \<open>record.__dict__\<close>: attribute name to value.
  A key of that dictionary that is not a string cannot be reached by an attribute or by
  the string look-ups of the modules, and is left out. The attributes the modules read
  (\<open>levelname\<close>, \<open>created\<close>, ...) exist in the instance only: reading one that is not there
  raises (\<open>None\<close>).

  The class adds the names that \<open>LogRecord\<close> and \<open>object\<close> define (\<open>getMessage\<close>,
  \<open>__init__\<close>, \<open>__class__\<close>, \<open>__dict__\<close>, ...), the library's \<open>class_names\<close>: \<open>hasattr\<close>
  finds those too.
\<close>

type_synonym pyrecord = "string \<rightharpoonup> pyval"

definition hasattr :: "pylib \<Rightarrow> pyrecord \<Rightarrow> string \<Rightarrow> bool" where
  "hasattr lib record name = (name \<in> set (class_names lib) \<or> record name \<noteq> None)"

text \<open>The instance dictionary that a dict becomes when it is assigned to \<open>__dict__\<close>.\<close>

fun instance_dict :: "(pyval \<times> pyval) list \<Rightarrow> pyrecord" where
  "instance_dict [] = Map.empty"
| "instance_dict ((PStr name, v) # kvs) = (\<lambda>n. if n = name then Some v else instance_dict kvs n)"
| "instance_dict (kv # kvs) = instance_dict kvs"

text \<open>
  \<open>setattr(record, name, v)\<close> stores the value in the instance dictionary, except for the
  three names that the class answers with a descriptor of its own. \<open>__class__\<close> takes only
  a class and \<open>__dict__\<close> only a dict (a \<open>TypeError\<close> otherwise), which then replaces the
  whole instance dictionary; \<open>__weakref__\<close> cannot be written (an \<open>AttributeError\<close>).
\<close>

definition setattr :: "pyrecord \<Rightarrow> string \<Rightarrow> pyval \<Rightarrow> pyrecord option" where
  "setattr record name v =
     (if name = ''__class__'' \<or> name = ''__weakref__'' then None
      else if name = ''__dict__'' then (case v of PDict kvs \<Rightarrow> Some (instance_dict kvs) | _ \<Rightarrow> None)
      else Some (record(name \<mapsto> v)))"

text \<open>
  \<open>record.getMessage()\<close>. An instance attribute of that name hides the method, and no
  value of \<open>pyval\<close> can be called: a \<open>TypeError\<close>. The method itself is
  \<open>msg = str(self.msg)\<close>, and \<open>msg % self.args\<close> when there are arguments.
\<close>

definition getMessage :: "pylib \<Rightarrow> pyrecord \<Rightarrow> string option" where
  "getMessage lib record =
     (if record ''getMessage'' \<noteq> None then None
      else
        do {
          msg \<leftarrow> record ''msg'';
          args \<leftarrow> record ''args'';
          if truthy args then percent_format lib (py_str lib msg) args else Some (py_str lib msg)
        })"

subsection \<open>Time formats\<close>

definition zfill :: "nat \<Rightarrow> string \<Rightarrow> string" where
  "zfill k s = replicate (k - length s) (CHR ''0'') @ s"

definition pad :: "nat \<Rightarrow> nat \<Rightarrow> string" where
  "pad k n = zfill k (decimal n)"

text \<open>\<open>strftime("%Y-%m-%d %H:%M:%S.%f")\<close>, \<open>strftime("%Y-%m-%d")\<close> and \<open>strftime("%H:%M:%S")\<close>.\<close>

definition strftime_date :: "datetime \<Rightarrow> string" where
  "strftime_date dt = pad 4 (year dt) @ ''-'' @ pad 2 (month dt) @ ''-'' @ pad 2 (day dt)"

definition strftime_hms :: "datetime \<Rightarrow> string" where
  "strftime_hms dt = pad 2 (hour dt) @ '':'' @ pad 2 (minute dt) @ '':'' @ pad 2 (second dt)"

definition strftime_full :: "datetime \<Rightarrow> string" where
  "strftime_full dt = strftime_date dt @ '' '' @ strftime_hms dt @ ''.'' @ pad 6 (microsecond dt)"

subsection \<open>\<open>json.dump(obj, f, ensure_ascii=False)\<close>\<close>

text \<open>
  The encoder writes the text to the file chunk by chunk and raises at the first object it
  cannot serialise, so the result is the text written and whether the object was written
  whole. With \<open>ensure_ascii=False\<close> only the quote, the backslash and the control
  characters are escaped.
\<close>

definition hex_digit :: "nat \<Rightarrow> char" where
  "hex_digit n = ''0123456789abcdef'' ! (n mod 16)"

definition json_escape :: "char \<Rightarrow> string" where
  "json_escape c =
     (if c = CHR 0x22 then [CHR 0x5C, CHR 0x22]
      else if c = CHR 0x5C then [CHR 0x5C, CHR 0x5C]
      else if c = CHR 0x0A then [CHR 0x5C, CHR ''n'']
      else if c = CHR 0x0D then [CHR 0x5C, CHR ''r'']
      else if c = CHR 0x09 then [CHR 0x5C, CHR ''t'']
      else if c = CHR 0x08 then [CHR 0x5C, CHR ''b'']
      else if c = CHR 0x0C then [CHR 0x5C, CHR ''f'']
      else if (of_char c :: nat) < 32
        then [CHR 0x5C, CHR ''u'', CHR ''0'', CHR ''0'',
              hex_digit ((of_char c :: nat) div 16), hex_digit (of_char c)]
      else [c])"

definition json_str :: "string \<Rightarrow> string" where
  "json_str s = [CHR 0x22] @ concat (map json_escape s) @ [CHR 0x22]"

text \<open>A dictionary key: a string, or \<open>True\<close>, \<open>False\<close>, \<open>None\<close> or an integer turned into one.\<close>

fun key_str :: "pyval \<Rightarrow> string option" where
  "key_str (PStr s) = Some s"
| "key_str (PBool b) = Some (if b then ''true'' else ''false'')"
| "key_str PNone = Some ''null''"
| "key_str (PInt i) = Some (int_str i)"
| "key_str v = None"

fun iterencode :: "pyval \<Rightarrow> string \<times> bool"
  and iterencode_list :: "bool \<Rightarrow> pyval list \<Rightarrow> string \<times> bool"
  and iterencode_dict :: "bool \<Rightarrow> (pyval \<times> pyval) list \<Rightarrow> string \<times> bool"
where
  "iterencode (PStr s) = (json_str s, True)"
| "iterencode PNone = (''null'', True)"
| "iterencode (PBool b) = (if b then ''true'' else ''false'', True)"
| "iterencode (PInt i) = (int_str i, True)"
| "iterencode (PList xs) =
     (if xs = [] then (''[]'', True)
      else case iterencode_list True xs of
             (s, ok) \<Rightarrow> if ok then (''['' @ s @ '']'', True) else (''['' @ s, False))"
| "iterencode (PDict kvs) =
     (if kvs = [] then (''{}'', True)
      else case iterencode_dict True kvs of
             (s, ok) \<Rightarrow> if ok then (''{'' @ s @ ''}'', True) else (''{'' @ s, False))"
| "iterencode (PObj s) = ([], False)"
| "iterencode_list first [] = ([], True)"
| "iterencode_list first (x # xs) =
     (let buf = (if first then [] else '', '') in
      case iterencode x of
        (s, ok) \<Rightarrow>
          if ok then (case iterencode_list False xs of (t, ok') \<Rightarrow> (buf @ s @ t, ok'))
          else (buf @ s, False))"
| "iterencode_dict first [] = ([], True)"
| "iterencode_dict first ((k, v) # kvs) =
     (case key_str k of
        None \<Rightarrow> ([], False)
      | Some ks \<Rightarrow>
          let item_separator = (if first then [] else '', '') in
          case iterencode v of
            (s, ok) \<Rightarrow>
              if ok then
                (case iterencode_dict False kvs of
                   (t, ok') \<Rightarrow> (item_separator @ json_str ks @ '': '' @ s @ t, ok'))
              else (item_separator @ json_str ks @ '': '' @ s, False))"

text \<open>A Python dict with string keys, as \<open>_record_to_dict\<close> builds it.\<close>

definition str_dict :: "(string \<times> pyval) list \<Rightarrow> pyval" where
  "str_dict d = PDict (map (\<lambda>(k, v). (PStr k, v)) d)"


section \<open>umi\_log.py: handlers and the process state\<close>

text \<open>
  Handlers and filters are objects: \<open>hid\<close> is the identity of one (\<open>x in list\<close> compares
  identities). The JSON handler extends the handler with what \<open>RotatingFileHandler\<close>
  stores.
\<close>

record handler =
  hid :: nat
  hlevel :: int

record json_handler = handler +
  baseFilename :: string
  maxBytes :: nat
  backupCount :: nat

datatype any_handler = Console handler | Json json_handler

record logger =
  llevel :: int
  lfilters :: "nat list"
  lhandlers :: "any_handler list"

text \<open>
  The state of the process: the files, the text written to \<open>sys.stderr\<close> (one entry for
  each \<open>write\<close>), the calls of \<open>Handler.handleError\<close> (handler and record), the loggers
  \<open>logging.getLogger\<close> gives by name (a logger nobody configured yet has level 0, no
  filter and no handler), the directories, the local time and the next object identity.
\<close>

record world = filesys +
  stderr :: "string list"
  handled :: "(nat \<times> pyrecord) list"
  loggers :: "string \<Rightarrow> logger"
  dirs :: "string set"
  now :: datetime
  next_id :: nat

text \<open>
  \<open>Handler.handleError\<close> calls no logger. The module leaves \<open>logging.raiseExceptions\<close> at
  its default, so the library writes to \<open>sys.stderr\<close> the line \<open>--- Logging error ---\<close>
  and then the traceback of the exception, the call stack, the message and the arguments
  of the record. What follows the first line depends on the interpreter's stack; the
  model, which keeps no exception object, takes it from the library for the record.
\<close>

definition handleError :: "pylib \<Rightarrow> 'a handler_scheme \<Rightarrow> pyrecord \<Rightarrow> world \<Rightarrow> world" where
  "handleError lib self record w =
     w\<lparr>stderr := stderr w @ (''--- Logging error ---'' @ [CHR 0x0A]) # error_report lib record,
       handled := handled w @ [(hid self, record)]\<rparr>"

subsection \<open>\<open>_JsonRotatingFileHandler\<close>\<close>

definition record_to_dict :: "pylib \<Rightarrow> pyrecord \<Rightarrow> (string \<times> pyval) list option" where
  "record_to_dict lib record =
     do {
       created \<leftarrow> record ''created'';
       dt_object \<leftarrow> fromtimestamp lib created;
       let formatted_time = strftime_full dt_object;
       levelname \<leftarrow> record ''levelname'';
       message \<leftarrow> getMessage lib record;
       filename \<leftarrow> record ''filename'';
       lineno \<leftarrow> record ''lineno'';
       module \<leftarrow> record ''module'';
       funcName \<leftarrow> record ''funcName'';
       exc_text \<leftarrow> record ''exc_text'';
       stack_info \<leftarrow> record ''stack_info'';
       thread \<leftarrow> record ''thread'';
       threadName \<leftarrow> record ''threadName'';
       process \<leftarrow> record ''process'';
       processName \<leftarrow> record ''processName'';
       name \<leftarrow> record ''name'';
       Some [(''time'', PStr formatted_time),
             (''level'', levelname),
             (''message'', PStr message),
             (''filename'', filename),
             (''lineno'', lineno),
             (''module'', module),
             (''funcName'', funcName),
             (''exc_text'', exc_text),
             (''stack_info'', stack_info),
             (''thread'', thread),
             (''threadName'', threadName),
             (''process'', process),
             (''processName'', processName),
             (''name'', name)]
     }"

text \<open>
  \<open>emit\<close>. The first \<open>try\<close> leaves \<open>log_dict\<close> unbound when the conversion raises; the
  second \<open>try\<close> then opens the file and raises a \<open>NameError\<close> at \<open>json.dump(log_dict, ...)\<close>,
  which its own \<open>except\<close> catches. The method never looks at the file's size and never
  calls \<open>shouldRollover\<close> or \<open>doRollover\<close>.
\<close>

definition JsonRotatingFileHandler_emit ::
  "pylib \<Rightarrow> json_handler \<Rightarrow> pyrecord \<Rightarrow> world \<Rightarrow> world" where
  "JsonRotatingFileHandler_emit lib self record w =
     (let (log_dict, w) =
            (case record_to_dict lib record of
               Some d \<Rightarrow> (Some d, w)
             | None \<Rightarrow> (None, handleError lib self record w))
      in case open_append (baseFilename self) w of
           None \<Rightarrow> handleError lib self record w
         | Some w \<Rightarrow>
             (case log_dict of
                None \<Rightarrow> handleError lib self record w
              | Some d \<Rightarrow>
                  (case iterencode (str_dict d) of
                     (out, ok) \<Rightarrow>
                       if ok then fwrite (baseFilename self) [CHR 0x0A] (fwrite (baseFilename self) out w)
                       else handleError lib self record (fwrite (baseFilename self) out w))))"


subsection \<open>\<open>_LevelFormatter\<close> and the console handler\<close>

definition LEVEL_SYMBOLS :: "string \<rightharpoonup> string" where
  "LEVEL_SYMBOLS =
     map_of [(''DEBUG'', [CHR 0xE2, CHR 0x88, CHR 0x9A]),
             (''INFO'', ''i''),
             (''WARNING'', ''?''),
             (''ERROR'', [CHR 0xC3, CHR 0x97]),
             (''CRITICAL'', ''!'')]"

text \<open>
  \<open>LEVEL_SYMBOLS.get(levelname, levelname)\<close>: the keys of the table are strings, so any
  other hashable object is not found; a list or a dict cannot be hashed and raises.
\<close>

fun symbol_get :: "pyval \<Rightarrow> pyval option" where
  "symbol_get (PStr s) = (case LEVEL_SYMBOLS s of Some glyph \<Rightarrow> Some (PStr glyph) | None \<Rightarrow> Some (PStr s))"
| "symbol_get (PList xs) = None"
| "symbol_get (PDict kvs) = None"
| "symbol_get v = Some v"

text \<open>
  \<open>logging.Formatter.format\<close> with the format
  \<open>"%(asctime)s %(levelsymbol)s %(funcName)s | %(message)s"\<close> and the date format
  \<open>"%H:%M:%S"\<close>. The record is changed in place, also when the call raises later, so
  the changed record is returned with the text (\<open>None\<close> when the call raises).
\<close>

definition formatMessage :: "pylib \<Rightarrow> pyrecord \<Rightarrow> string option" where
  "formatMessage lib record =
     do {
       asctime \<leftarrow> record ''asctime'';
       levelsymbol \<leftarrow> record ''levelsymbol'';
       funcName \<leftarrow> record ''funcName'';
       message \<leftarrow> record ''message'';
       Some (py_str lib asctime @ '' '' @ py_str lib levelsymbol @ '' '' @ py_str lib funcName
             @ '' | '' @ py_str lib message)
     }"

text \<open>\<open>if s[-1:] != "\n": s = s + "\n"\<close> and then \<open>s = s + t\<close>.\<close>

definition add_block :: "string \<Rightarrow> pyval \<Rightarrow> string option" where
  "add_block s t =
     (case t of
        PStr u \<Rightarrow> Some ((if s \<noteq> [] \<and> last s = CHR 0x0A then s else s @ [CHR 0x0A]) @ u)
      | _ \<Rightarrow> None)"

text \<open>
  \<open>if record.exc_info: if not record.exc_text: record.exc_text = formatException(...)\<close>,
  and the two blocks \<open>if record.exc_text: ...\<close> and \<open>if record.stack_info: ...\<close>.
\<close>

definition cache_exc_text :: "pylib \<Rightarrow> pyrecord \<Rightarrow> pyrecord option" where
  "cache_exc_text lib record =
     do {
       exc_info \<leftarrow> record ''exc_info'';
       if truthy exc_info then
         do {
           exc_text \<leftarrow> record ''exc_text'';
           Some (if \<not> truthy exc_text
                 then record(''exc_text'' \<mapsto> PStr (formatException lib exc_info))
                 else record)
         }
       else Some record
     }"

definition add_exc_and_stack :: "pyrecord \<Rightarrow> string \<Rightarrow> string option" where
  "add_exc_and_stack record s =
     do {
       exc_text \<leftarrow> record ''exc_text'';
       s \<leftarrow> (if truthy exc_text then add_block s exc_text else Some s);
       stack_info \<leftarrow> record ''stack_info'';
       if truthy stack_info then add_block s stack_info else Some s
     }"

definition Formatter_format :: "pylib \<Rightarrow> pyrecord \<Rightarrow> pyrecord \<times> string option" where
  "Formatter_format lib record =
     (case getMessage lib record of
        None \<Rightarrow> (record, None)
      | Some message \<Rightarrow>
          let record = record(''message'' \<mapsto> PStr message) in
          (case Option.bind (record ''created'') (localtime lib) of
             None \<Rightarrow> (record, None)
           | Some ct \<Rightarrow>
               let record = record(''asctime'' \<mapsto> PStr (strftime_hms ct)) in
               (case formatMessage lib record of
                  None \<Rightarrow> (record, None)
                | Some s \<Rightarrow>
                    (case cache_exc_text lib record of
                       None \<Rightarrow> (record, None)
                     | Some record \<Rightarrow> (record, add_exc_and_stack record s)))))"

definition LevelFormatter_format :: "pylib \<Rightarrow> pyrecord \<Rightarrow> pyrecord \<times> string option" where
  "LevelFormatter_format lib record =
     (case Option.bind (record ''levelname'') symbol_get of
        None \<Rightarrow> (record, None)
      | Some levelsymbol \<Rightarrow> Formatter_format lib (record(''levelsymbol'' \<mapsto> levelsymbol)))"

text \<open>
  \<open>StreamHandler.emit\<close> on \<open>sys.stderr\<close>: the formatted text and the terminator in one
  \<open>write\<close>; any exception goes to \<open>handleError\<close>.
\<close>

definition StreamHandler_emit :: "pylib \<Rightarrow> handler \<Rightarrow> pyrecord \<Rightarrow> world \<Rightarrow> pyrecord \<times> world" where
  "StreamHandler_emit lib self record w =
     (case LevelFormatter_format lib record of
        (record', Some msg) \<Rightarrow> (record', w\<lparr>stderr := stderr w @ [msg @ [CHR 0x0A]]\<rparr>)
      | (record', None) \<Rightarrow> (record', handleError lib self record' w))"

text \<open>\<open>Handler.handle\<close>: neither handler has a filter of its own, so the record is emitted.\<close>

fun Handler_handle :: "pylib \<Rightarrow> any_handler \<Rightarrow> pyrecord \<Rightarrow> world \<Rightarrow> pyrecord \<times> world" where
  "Handler_handle lib (Console h) record w = StreamHandler_emit lib h record w"
| "Handler_handle lib (Json h) record w = (record, JsonRotatingFileHandler_emit lib h record w)"

fun any_hlevel :: "any_handler \<Rightarrow> int" where
  "any_hlevel (Console h) = hlevel h"
| "any_hlevel (Json h) = hlevel h"

fun any_hid :: "any_handler \<Rightarrow> nat" where
  "any_hid (Console h) = hid h"
| "any_hid (Json h) = hid h"

text \<open>\<open>record.levelno >= hdlr.level\<close>: a \<open>TypeError\<close> unless the level number is a number.\<close>

fun py_ge_int :: "pyval \<Rightarrow> int \<Rightarrow> bool option" where
  "py_ge_int (PInt n) l = Some (n \<ge> l)"
| "py_ge_int (PBool b) l = Some ((if b then 1 else 0) \<ge> l)"
| "py_ge_int v l = None"

text \<open>
  \<open>Logger.callHandlers\<close> over the logger's own handlers. The root logger is taken as
  the library leaves it, without handlers; the library's last-resort handler, used for a
  logger that has no handler at all, is not modelled.
\<close>

fun callHandlers :: "pylib \<Rightarrow> any_handler list \<Rightarrow> pyrecord \<Rightarrow> world \<Rightarrow> (pyrecord \<times> world) option" where
  "callHandlers lib [] record w = Some (record, w)"
| "callHandlers lib (hdlr # hs) record w =
     do {
       levelno \<leftarrow> record ''levelno'';
       enabled \<leftarrow> py_ge_int levelno (any_hlevel hdlr);
       if enabled then
         (case Handler_handle lib hdlr record w of (record', w') \<Rightarrow> callHandlers lib hs record' w')
       else callHandlers lib hs record w
     }"


section \<open>umi\_log.py: the logger\<close>

definition getLevelName :: "int \<Rightarrow> string" where
  "getLevelName level =
     (if level = 50 then ''CRITICAL''
      else if level = 40 then ''ERROR''
      else if level = 30 then ''WARNING''
      else if level = 20 then ''INFO''
      else if level = 10 then ''DEBUG''
      else if level = 0 then ''NOTSET''
      else ''Level '' @ int_str level)"

text \<open>
  The record \<open>Logger.makeRecord\<close> builds for a call without arguments. \<open>exc_info=True\<close>
  stores \<open>sys.exc_info()\<close>, \<open>stack_info=True\<close> the stack text; \<open>extra={"cover": c}\<close> adds the
  attribute \<open>cover\<close> (no other extra key is used by the module).
\<close>

definition LogRecord :: "callinfo \<Rightarrow> string \<Rightarrow> int \<Rightarrow> pyval \<Rightarrow> bool \<Rightarrow> bool \<Rightarrow> pyrecord" where
  "LogRecord ci name level msg exc_info stack_info =
     map_of [(''name'', PStr name),
             (''msg'', msg),
             (''args'', PList []),
             (''levelname'', PStr (getLevelName level)),
             (''levelno'', PInt level),
             (''pathname'', ci_pathname ci),
             (''filename'', ci_filename ci),
             (''module'', ci_module ci),
             (''exc_info'', if exc_info then ci_exc_info ci else PNone),
             (''exc_text'', PNone),
             (''stack_info'', if stack_info then ci_stack ci else PNone),
             (''lineno'', ci_lineno ci),
             (''funcName'', ci_funcName ci),
             (''created'', ci_created ci),
             (''msecs'', ci_msecs ci),
             (''relativeCreated'', ci_relativeCreated ci),
             (''thread'', ci_thread ci),
             (''threadName'', ci_threadName ci),
             (''processName'', ci_processName ci),
             (''process'', ci_process ci)]"

definition makeRecord ::
  "callinfo \<Rightarrow> string \<Rightarrow> int \<Rightarrow> pyval \<Rightarrow> pyval option \<Rightarrow> bool \<Rightarrow> bool \<Rightarrow> pyrecord" where
  "makeRecord ci name level msg cover exc_info stack_info =
     (let rv = LogRecord ci name level msg exc_info stack_info in
      case cover of None \<Rightarrow> rv | Some c \<Rightarrow> rv(''cover'' \<mapsto> c))"

text \<open>\<open>Logger.getEffectiveLevel\<close>: the logger's level, or the root's default WARNING.\<close>

definition getEffectiveLevel :: "logger \<Rightarrow> int" where
  "getEffectiveLevel self = (if llevel self \<noteq> 0 then llevel self else 30)"

subsection \<open>\<open>_CoverFilter\<close>\<close>

text \<open>
  The body of the \<open>try\<close>: the record as the loop left it (changed in place) and whether
  the body ran to \<open>return True\<close>. \<open>hasattr\<close> raises on a name that is not a string,
  \<open>setattr\<close> as said above, \<open>cover.items()\<close> on an object that is not a dict.
\<close>

fun cover_loop :: "pylib \<Rightarrow> pyrecord \<Rightarrow> (pyval \<times> pyval) list \<Rightarrow> pyrecord \<times> bool" where
  "cover_loop lib record [] = (record, True)"
| "cover_loop lib record ((k, v) # kvs) =
     (case k of
        PStr name \<Rightarrow>
          if hasattr lib record name then
            (case setattr record name v of
               Some record' \<Rightarrow> cover_loop lib record' kvs
             | None \<Rightarrow> (record, False))
          else cover_loop lib record kvs
      | _ \<Rightarrow> (record, False))"

definition cover_try :: "pylib \<Rightarrow> pyrecord \<Rightarrow> pyrecord \<times> bool" where
  "cover_try lib record =
     (case (case record ''cover'' of Some c \<Rightarrow> c | None \<Rightarrow> PDict []) of
        PDict kvs \<Rightarrow> cover_loop lib record kvs
      | _ \<Rightarrow> (record, False))"

definition filter_error_msg :: string where
  "filter_error_msg =
     [CHR 0xE6, CHR 0x97, CHR 0xA5, CHR 0xE5, CHR 0xBF, CHR 0x97, CHR 0xE8, CHR 0xBF, CHR 0x87,
      CHR 0xE6, CHR 0xBB, CHR 0xA4, CHR 0xE9, CHR 0x94, CHR 0x99, CHR 0xE8, CHR 0xAF, CHR 0xAF]"

lemma cover_try_no_cover: "record ''cover'' = None \<Longrightarrow> cover_try lib record = (record, True)"
  by (simp add: cover_try_def)

text \<open>
  The measure of the recursion: whether the record at hand carries a \<open>cover\<close>, then the
  place in the call chain (the logging call, the filters still to run, one filter).
\<close>

definition log_flag ::
  "(pylib \<times> pyrecord \<times> world) + (pylib \<times> nat list \<times> pyrecord \<times> world) +
   (pylib \<times> string \<times> int \<times> pyval \<times> pyval option \<times> bool \<times> bool \<times> callinfo \<times> world) \<Rightarrow> nat" where
  "log_flag c =
     (case c of
        Inl (lib, record, w) \<Rightarrow> (if record ''cover'' = None then 0 else 1)
      | Inr (Inl (lib, fs, record, w)) \<Rightarrow> (if record ''cover'' = None then 0 else 1)
      | Inr (Inr (lib, name, level, msg, cover, rest)) \<Rightarrow> (if cover = None then 0 else 1))"

definition log_stage ::
  "(pylib \<times> pyrecord \<times> world) + (pylib \<times> nat list \<times> pyrecord \<times> world) +
   (pylib \<times> string \<times> int \<times> pyval \<times> pyval option \<times> bool \<times> bool \<times> callinfo \<times> world) \<Rightarrow> nat" where
  "log_stage c =
     (case c of
        Inl (lib, record, w) \<Rightarrow> 0
      | Inr (Inl (lib, fs, record, w)) \<Rightarrow> Suc (length fs)
      | Inr (Inr (lib, name, level, msg, cover, exc_info, stack_info, ci, w)) \<Rightarrow>
          Suc (Suc (length (lfilters (loggers w name)))))"

text \<open>
  \<open>_CoverFilter.filter\<close>, \<open>Filterer.filter\<close> (the loop over the logger's filters, which
  stops at the first that returns false) and the logging call \<open>logger.<level>(msg, ...)\<close>
  on the logger of a name. The filter's \<open>except\<close> branch calls \<open>logger.error\<close> on the
  module's logger, which runs the filters again on the new record: the three functions are
  mutually recursive. \<open>None\<close> is an exception that leaves the call.
\<close>

function CoverFilter_filter :: "pylib \<Rightarrow> pyrecord \<Rightarrow> world \<Rightarrow> (bool \<times> pyrecord \<times> world) option"
  and Filterer_filter :: "pylib \<Rightarrow> nat list \<Rightarrow> pyrecord \<Rightarrow> world \<Rightarrow> (bool \<times> pyrecord \<times> world) option"
  and Logger_log ::
    "pylib \<Rightarrow> string \<Rightarrow> int \<Rightarrow> pyval \<Rightarrow> pyval option \<Rightarrow> bool \<Rightarrow> bool \<Rightarrow> callinfo \<Rightarrow> world \<Rightarrow> world option"
where
  "CoverFilter_filter lib record w =
     (case cover_try lib record of
        (record', ok) \<Rightarrow>
          if ok then Some (True, record', w)
          else (case Logger_log lib ''Umi-OCR'' 40 (PStr filter_error_msg) None True True
                       (filter_site lib) w of
                  None \<Rightarrow> None
                | Some w' \<Rightarrow> Some (False, record', w')))"
| "Filterer_filter lib [] record w = Some (True, record, w)"
| "Filterer_filter lib (f # fs) record w =
     (case CoverFilter_filter lib record w of
        None \<Rightarrow> None
      | Some (result, record', w') \<Rightarrow>
          if result then Filterer_filter lib fs record' w' else Some (False, record', w'))"
| "Logger_log lib name level msg cover exc_info stack_info ci w =
     (let self = loggers w name in
      if level < getEffectiveLevel self then Some w
      else
        let record = makeRecord ci name level msg cover exc_info stack_info in
        case Filterer_filter lib (lfilters self) record w of
          None \<Rightarrow> None
        | Some (rv, record', w') \<Rightarrow>
            if rv then map_option snd (callHandlers lib (lhandlers (loggers w' name)) record' w')
            else Some w')"
  by pat_completeness auto

text \<open>
  The recursion ends because the record of the call in the \<open>except\<close> branch carries no
  \<open>cover\<close>, and on such a record the \<open>try\<close> body cannot raise.
\<close>

lemma cover_try_fails_cover: "cover_try lib record = (record', False) \<Longrightarrow> record ''cover'' \<noteq> None"
  using cover_try_no_cover [of "record" lib] by auto

lemma LogRecord_cover: "LogRecord ci name level msg exc_info stack_info ''cover'' = None"
  by (simp add: LogRecord_def)

lemma makeRecord_cover:
  "(makeRecord ci name level msg cover exc_info stack_info ''cover'' = None) = (cover = None)"
  by (cases cover) (simp_all add: makeRecord_def Let_def LogRecord_cover)

lemma CoverFilter_filter_true:
  assumes "CoverFilter_filter_Filterer_filter_Logger_log_dom (Inl (lib, record, w))"
    and "CoverFilter_filter lib record w = Some (True, record', w')"
  shows "record' = fst (cover_try lib record)"
  using assms(2) unfolding CoverFilter_filter.psimps [OF assms(1)]
  by (auto split: prod.splits if_splits option.splits)

termination CoverFilter_filter
proof (relation "measures [log_flag, log_stage]", goal_cases)
  case 1
  show ?case by simp
next
  case (2 lib record' w x y)
  then have "cover_try lib record' = (x, False)" by simp
  from cover_try_fails_cover [OF this] obtain c where "record' ''cover'' = Some c" by auto
  then show ?case by (simp add: log_flag_def)
next
  case (3 lib f fs record' w)
  show ?case by (simp add: log_flag_def log_stage_def)
next
  case (4 lib f fs record' w x2 x y xa ya)
  then have "CoverFilter_filter lib record' w = Some (True, xa, ya)" by simp
  from CoverFilter_filter_true [OF 4(5) this] have "xa = fst (cover_try lib record')" .
  then have "record' ''cover'' = None \<Longrightarrow> xa ''cover'' = None"
    by (simp add: cover_try_no_cover)
  then show ?case by (auto simp: log_flag_def log_stage_def)
next
  case (5 lib name level msg cover exc_info stack_info ci w x xa)
  then show ?case
    by (simp add: log_flag_def log_stage_def makeRecord_cover)
qed

declare CoverFilter_filter.simps [simp del] Logger_log.simps [simp del]

subsection \<open>\<open>_LogManager\<close>\<close>

definition log_dir :: string where
  "log_dir = ''./logs''"

text \<open>The console handler: a fresh \<open>StreamHandler(sys.stderr)\<close> with level DEBUG.\<close>

definition get_console_handler :: "world \<Rightarrow> handler \<times> world" where
  "get_console_handler w = (\<lparr>hid = next_id w, hlevel = 10\<rparr>, w\<lparr>next_id := Suc (next_id w)\<rparr>)"

text \<open>
  The JSON handler: the directory is made when missing, the file is named after the
  current date, and \<open>delay=True\<close> leaves the file unopened. The path is joined with
  \<open>/\<close>; the library's normalisation to an absolute path is left out.
\<close>

definition get_json_handler :: "world \<Rightarrow> json_handler \<times> world" where
  "get_json_handler w =
     (let w = (if log_dir \<notin> dirs w then w\<lparr>dirs := insert log_dir (dirs w)\<rparr> else w);
          current_date = strftime_date (now w);
          log_file = log_dir @ ''/'' @ current_date @ ''.jsonl.txt''
      in (\<lparr>hid = next_id w, hlevel = 10, baseFilename = log_file,
           maxBytes = 10485760, backupCount = 3\<rparr>,
          w\<lparr>next_id := Suc (next_id w)\<rparr>))"

text \<open>\<open>addFilter\<close> and \<open>addHandler\<close> append the object unless it is in the list already.\<close>

definition addFilter :: "nat \<Rightarrow> logger \<Rightarrow> logger" where
  "addFilter f self = (if f \<in> set (lfilters self) then self else self\<lparr>lfilters := lfilters self @ [f]\<rparr>)"

definition addHandler :: "any_handler \<Rightarrow> logger \<Rightarrow> logger" where
  "addHandler hdlr self =
     (if any_hid hdlr \<in> set (map any_hid (lhandlers self)) then self
      else self\<lparr>lhandlers := lhandlers self @ [hdlr]\<rparr>)"

text \<open>
  \<open>create_logger\<close>: \<open>logging.getLogger(name)\<close> is the logger the process already has
  under that name. The result is the state in which that logger is configured.
\<close>

definition create_logger :: "string \<Rightarrow> world \<Rightarrow> world" where
  "create_logger name w =
     (let logger = loggers w name;
          (cover_filter, w) = (next_id w, w\<lparr>next_id := Suc (next_id w)\<rparr>);
          logger = addFilter cover_filter logger;
          logger = logger\<lparr>llevel := 10\<rparr>;
          (console_handler, w) = get_console_handler w;
          logger = addHandler (Console console_handler) logger;
          (json_handler, w) = get_json_handler w;
          logger = addHandler (Json json_handler) logger
      in w\<lparr>loggers := (loggers w)(name := logger)\<rparr>)"

subsection \<open>The Qt message handler\<close>

text \<open>
  The toolkit's \<open>QtMsgType\<close> has the five values; \<open>QtOtherMsg v\<close> is any other object
  passed as \<open>mode\<close>. The context is the map of its attributes.
\<close>

datatype QtMsgType =
    QtDebugMsg
  | QtInfoMsg
  | QtWarningMsg
  | QtCriticalMsg
  | QtFatalMsg
  | QtOtherMsg pyval

definition getattr_default :: "(string \<rightharpoonup> pyval) \<Rightarrow> string \<Rightarrow> pyval \<Rightarrow> pyval" where
  "getattr_default obj name d = (case obj name of Some v \<Rightarrow> v | None \<Rightarrow> d)"

text \<open>\<open>os.path.basename\<close> raises a \<open>TypeError\<close> on an object that is not a path.\<close>

fun os_path_basename :: "pylib \<Rightarrow> pyval \<Rightarrow> string option" where
  "os_path_basename lib (PStr s) = Some (path_basename lib s)"
| "os_path_basename lib v = None"

definition qt_cover :: "(string \<rightharpoonup> pyval) \<Rightarrow> string \<Rightarrow> pyval \<Rightarrow> pyval" where
  "qt_cover context filename funcName =
     PDict [(PStr ''category'', getattr_default context ''category'' (PStr ''?'')),
            (PStr ''filename'', PStr filename),
            (PStr ''funcName'', funcName),
            (PStr ''lineno'', getattr_default context ''line'' (PStr ''?'')),
            (PStr ''version'', getattr_default context ''version'' (PStr ''?'')),
            (PStr ''module'', PStr ''qml'')]"

text \<open>
  \<open>qt_message_handler\<close>: \<open>logger\<close> is the module's logger \<open>"Umi-OCR"\<close>; \<open>logger.debug\<close>,
  \<open>info\<close>, \<open>warning\<close>, \<open>error\<close> and \<open>critical\<close> log at the levels 10, 20, 30, 40
  and 50.
\<close>

definition qt_message_handler ::
  "pylib \<Rightarrow> callinfo \<Rightarrow> QtMsgType \<Rightarrow> (string \<rightharpoonup> pyval) \<Rightarrow> pyval \<Rightarrow> world \<Rightarrow> world option" where
  "qt_message_handler lib ci mode context msg w =
     (let filepath = getattr_default context ''file'' (PStr ''?'') in
      case os_path_basename lib filepath of
        None \<Rightarrow> None
      | Some filename \<Rightarrow>
          let funcName = getattr_default context ''function'' (PStr ''?'');
              funcName = (if \<not> truthy funcName then PStr ''()=>{}'' else funcName);
              cover = qt_cover context filename funcName
          in if mode = QtDebugMsg then Logger_log lib ''Umi-OCR'' 10 msg (Some cover) False False ci w
             else if mode = QtInfoMsg then Logger_log lib ''Umi-OCR'' 20 msg (Some cover) False False ci w
             else if mode = QtWarningMsg then Logger_log lib ''Umi-OCR'' 30 msg (Some cover) False False ci w
             else if mode = QtCriticalMsg then Logger_log lib ''Umi-OCR'' 40 msg (Some cover) False False ci w
             else if mode = QtFatalMsg then Logger_log lib ''Umi-OCR'' 50 msg (Some cover) False False ci w
             else Some w)"


section \<open>Notions used to state the properties\<close>

text \<open>
  A key of an override map that names an ordinary attribute: a string, and none of the
  three names that \<open>setattr\<close> does not store in the instance.
\<close>

fun plain_name :: "pyval \<Rightarrow> bool" where
  "plain_name (PStr name) = (name \<noteq> ''__class__'' \<and> name \<noteq> ''__dict__'' \<and> name \<noteq> ''__weakref__'')"
| "plain_name k = False"


text \<open>
  A text of a fixed shape: \<open>d\<close> in the pattern stands for a decimal digit, any other
  character for itself.
\<close>

fun matches_pattern :: "string \<Rightarrow> string \<Rightarrow> bool" where
  "matches_pattern [] [] = True"
| "matches_pattern (p # ps) (c # cs) =
     ((if p = CHR ''d'' then c \<in> set ''0123456789'' else c = p) \<and> matches_pattern ps cs)"
| "matches_pattern ps cs = False"

definition time_shape :: "string \<Rightarrow> bool" where
  "time_shape s = matches_pattern ''dddd-dd-dd dd:dd:dd.dddddd'' s"

text \<open>
  The text of a JSON object on one line, from its keys and the encoded values, with the
  item separator and the key separator of \<open>json.dump\<close>.
\<close>

fun join_fields :: "(string \<times> string) list \<Rightarrow> string" where
  "join_fields [] = []"
| "join_fields [(k, e)] = json_str k @ '': '' @ e"
| "join_fields ((k, e) # rest) = json_str k @ '': '' @ e @ '', '' @ join_fields rest"

definition json_object :: "(string \<times> string) list \<Rightarrow> string" where
  "json_object items = [CHR 0x7B] @ join_fields items @ [CHR 0x7D]"

text \<open>
  The fourteen fields of a line of the log file, in their order, for a record, its
  formatted time and its resolved message (an attribute the record lacks is \<open>None\<close>).
\<close>

definition json_fields :: "pyrecord \<Rightarrow> string \<Rightarrow> string \<Rightarrow> (string \<times> pyval option) list" where
  "json_fields record formatted_time message =
     [(''time'', Some (PStr formatted_time)), (''level'', record ''levelname''),
      (''message'', Some (PStr message)), (''filename'', record ''filename''),
      (''lineno'', record ''lineno''), (''module'', record ''module''),
      (''funcName'', record ''funcName''), (''exc_text'', record ''exc_text''),
      (''stack_info'', record ''stack_info''), (''thread'', record ''thread''),
      (''threadName'', record ''threadName''), (''process'', record ''process''),
      (''processName'', record ''processName''), (''name'', record ''name'')]"

section \<open>Concrete inputs\<close>

text \<open>
  The library, a call site and a moment in time. The class names are those of Python 3.6
  to 3.10 (the module imports PySide2, which runs on these).
\<close>

definition example_dt :: datetime where
  "example_dt = \<lparr>year = 2024, month = 3, day = 9, hour = 7, minute = 5, second = 0,
                  microsecond = 1234\<rparr>"

definition example_site :: callinfo where
  "example_site =
     \<lparr>ci_pathname = PStr ''/app/main.py'', ci_filename = PStr ''main.py'',
      ci_module = PStr ''main'', ci_lineno = PInt 12, ci_funcName = PStr ''run'',
      ci_created = PObj ''1709967900.001234'', ci_msecs = PObj ''1.0'',
      ci_relativeCreated = PObj ''250.0'', ci_thread = PInt 1,
      ci_threadName = PStr ''MainThread'', ci_processName = PStr ''MainProcess'',
      ci_process = PInt 4242, ci_exc_info = PObj ''(TypeError, ...)'',
      ci_stack = PStr ''Stack (most recent call last):''\<rparr>"

definition example_lib :: pylib where
  "example_lib =
     \<lparr>str_container = (\<lambda>v. ''[...]''),
      fromtimestamp = (\<lambda>v. if v = PObj ''1709967900.001234'' then Some example_dt else None),
      localtime = (\<lambda>v. if v = PObj ''1709967900.001234'' then Some example_dt else None),
      percent_format = (\<lambda>s args. if s = ''%d pages'' \<and> args = PList [PInt 3]
                                   then Some ''3 pages'' else None),
      formatException = (\<lambda>v. ''Traceback (most recent call last):''),
      path_basename = (\<lambda>s. rev (takeWhile (\<lambda>c. c \<noteq> CHR ''/'') (rev s))),
      filter_site = example_site,
      class_names =
        [''getMessage'', ''__init__'', ''__repr__'', ''__str__'', ''__module__'', ''__doc__'',
         ''__dict__'', ''__weakref__'', ''__class__'', ''__delattr__'', ''__dir__'', ''__eq__'',
         ''__format__'', ''__ge__'', ''__getattribute__'', ''__gt__'', ''__hash__'',
         ''__init_subclass__'', ''__le__'', ''__lt__'', ''__ne__'', ''__new__'', ''__reduce__'',
         ''__reduce_ex__'', ''__setattr__'', ''__sizeof__'', ''__subclasshook__''],
      error_report = (\<lambda>record. [''Traceback (most recent call last):'' @ [CHR 0x0A]])\<rparr>"

text \<open>The text writer: an output file, a blank result and a result with two fragments.\<close>

definition example_fs :: filesys where
  "example_fs = \<lparr>files = [''out/run.txt'' \<mapsto> ''2024-03-09'' @ [CHR 0x0A, CHR 0x0A]],
                 openable = (\<lambda>p. p = ''out/run.txt'')\<rparr>"

definition example_writer :: OutputTxt where
  "example_writer = \<lparr>outputPath = ''out/run.txt'', ingoreBlank = PBool True\<rparr>"

definition example_blank :: pyval where
  "example_blank = PDict [(PStr ''code'', PInt 101), (PStr ''fileName'', PStr ''a.png''),
                          (PStr ''data'', PStr ''No text'')]"

definition example_res :: pyval where
  "example_res = PDict [(PStr ''code'', PInt 100), (PStr ''fileName'', PStr ''b.png''),
     (PStr ''data'', PList [PDict [(PStr ''text'', PStr ''Hello''), (PStr ''score'', PObj ''0.99'')],
                            PDict [(PStr ''text'', PStr ''World'')]])]"

text \<open>Log records: one with arguments and a level name outside the table, one as a plain \<open>logger.info\<close> call makes it, and the latter after the console formatter.\<close>

definition example_record :: pyrecord where
  "example_record = (LogRecord example_site ''Umi-OCR'' 20 (PStr ''%d pages'') False False)
                       (''args'' \<mapsto> PList [PInt 3], ''levelname'' \<mapsto> PStr ''NOTICE'')"



text \<open>Override maps: the one of the module's docstring with an unknown key added, one with a key that is not a string, and one that names the record's class.\<close>

definition example_cover :: "(pyval \<times> pyval) list" where
  "example_cover = [(PStr ''filename'', PStr ''test.txt''), (PStr ''lineno'', PInt 999),
                    (PStr ''nosuch'', PInt 1)]"

definition example_cover_record :: pyrecord where
  "example_cover_record = example_record(''cover'' \<mapsto> PDict example_cover)"

definition example_bad_record :: pyrecord where
  "example_bad_record = example_record(''cover'' \<mapsto> PDict [(PStr ''lineno'', PInt 7), (PInt 1, PStr ''x'')])"

definition example_class_record :: pyrecord where
  "example_class_record = example_record(''cover'' \<mapsto> PDict [(PStr ''__class__'', PInt 5)])"

text \<open>The process before the module is imported, after its import, and after a second \<open>create_logger\<close> with the same name.\<close>

definition fresh_world :: world where
  "fresh_world =
     \<lparr>files = Map.empty, openable = (\<lambda>p. True), stderr = [], handled = [],
      loggers = (\<lambda>name. \<lparr>llevel = 0, lfilters = [], lhandlers = []\<rparr>),
      dirs = {}, now = example_dt, next_id = 0\<rparr>"

definition example_world :: world where
  "example_world = create_logger ''Umi-OCR'' fresh_world"


text \<open>The JSON handler, the lines it writes and the console line.\<close>

definition example_json_handler :: json_handler where
  "example_json_handler = fst (get_json_handler fresh_world)"

definition example_dict :: "(string \<times> pyval) list" where
  "example_dict =
     [(''time'', PStr ''2024-03-09 07:05:00.001234''), (''level'', PStr ''NOTICE''),
      (''message'', PStr ''3 pages''), (''filename'', PStr ''main.py''), (''lineno'', PInt 12),
      (''module'', PStr ''main''), (''funcName'', PStr ''run''), (''exc_text'', PNone),
      (''stack_info'', PNone), (''thread'', PInt 1), (''threadName'', PStr ''MainThread''),
      (''process'', PInt 4242), (''processName'', PStr ''MainProcess''),
      (''name'', PStr ''Umi-OCR'')]"

definition example_line :: string where
  "example_line =
     json_object
       [(''time'', json_str ''2024-03-09 07:05:00.001234''), (''level'', json_str ''NOTICE''),
        (''message'', json_str ''3 pages''), (''filename'', json_str ''main.py''),
        (''lineno'', ''12''), (''module'', json_str ''main''), (''funcName'', json_str ''run''),
        (''exc_text'', ''null''), (''stack_info'', ''null''), (''thread'', ''1''),
        (''threadName'', json_str ''MainThread''), (''process'', ''4242''),
        (''processName'', json_str ''MainProcess''), (''name'', json_str ''Umi-OCR'')]"




text \<open>A target file of 10 MiB.\<close>

definition big_log :: string where
  "big_log = replicate 10485760 (CHR ''x'')"

definition full_world :: world where
  "full_world = fresh_world\<lparr>files := [''./logs/2024-03-09.jsonl.txt'' \<mapsto> big_log]\<rparr>"

text \<open>What \<open>handleError\<close> prints with the example library.\<close>

definition example_error_report :: "string list" where
  "example_error_report =
     [''--- Logging error ---'' @ [CHR 0x0A], ''Traceback (most recent call last):'' @ [CHR 0x0A]]"

text \<open>Records that fail in \<open>emit\<close>: an attribute JSON cannot serialise (with the dict and the text written before the failure), and arguments the message cannot take.\<close>

definition example_unserialisable :: pyrecord where
  "example_unserialisable = example_record(''filename'' \<mapsto> PObj ''WindowsPath(a.txt)'')"

definition example_dict_bad :: "(string \<times> pyval) list" where
  "example_dict_bad =
     [(''time'', PStr ''2024-03-09 07:05:00.001234''), (''level'', PStr ''NOTICE''),
      (''message'', PStr ''3 pages''), (''filename'', PObj ''WindowsPath(a.txt)''), (''lineno'', PInt 12),
      (''module'', PStr ''main''), (''funcName'', PStr ''run''), (''exc_text'', PNone),
      (''stack_info'', PNone), (''thread'', PInt 1), (''threadName'', PStr ''MainThread''),
      (''process'', PInt 4242), (''processName'', PStr ''MainProcess''),
      (''name'', PStr ''Umi-OCR'')]"

definition example_partial :: string where
  "example_partial =
     [CHR 0x7B] @ json_str ''time'' @ '': '' @ json_str ''2024-03-09 07:05:00.001234'' @ '', '' @
     json_str ''level'' @ '': '' @ json_str ''NOTICE'' @ '', '' @
     json_str ''message'' @ '': '' @ json_str ''3 pages'' @ '', '' @
     json_str ''filename'' @ '': ''"

definition example_bad_args :: pyrecord where
  "example_bad_args = example_record(''args'' \<mapsto> PList [PStr ''three''])"

text \<open>
  Qt message contexts with an empty function name: one of a QML file, and one of a
  message that has no source location (the toolkit then passes \<open>None\<close> as the file).
\<close>

definition example_context :: "string \<rightharpoonup> pyval" where
  "example_context = [''file'' \<mapsto> PStr ''qml/pages/Main.qml'', ''function'' \<mapsto> PStr [],
                      ''line'' \<mapsto> PInt 31, ''category'' \<mapsto> PStr ''qml'', ''version'' \<mapsto> PInt 2]"

definition example_context_no_file :: "string \<rightharpoonup> pyval" where
  "example_context_no_file = [''file'' \<mapsto> PNone, ''function'' \<mapsto> PStr [],
                              ''line'' \<mapsto> PInt 0, ''category'' \<mapsto> PStr ''default'', ''version'' \<mapsto> PInt 2]"

text \<open>
  The record of a fatal message \<open>"boom"\<close> with the first context, after the override
  filter and after the console formatter, and the lines written for it.
\<close>

definition example_qt_record :: pyrecord where
  "example_qt_record =
     (makeRecord example_site ''Umi-OCR'' 50 (PStr ''boom'')
        (Some (qt_cover example_context ''Main.qml'' (PStr ''()=>{}''))) False False)
     (''filename'' \<mapsto> PStr ''Main.qml'', ''funcName'' \<mapsto> PStr ''()=>{}'',
      ''lineno'' \<mapsto> PInt 31, ''module'' \<mapsto> PStr ''qml'')"

definition example_qt_formatted :: pyrecord where
  "example_qt_formatted = example_qt_record(''levelsymbol'' \<mapsto> PStr ''!'', ''message'' \<mapsto> PStr ''boom'',
                                    ''asctime'' \<mapsto> PStr ''07:05:00'')"

definition qt_console :: string where
  "qt_console = ''07:05:00 ! ()=>{} | boom'' @ [CHR 0x0A]"

definition qt_dict :: "(string \<times> pyval) list" where
  "qt_dict =
     [(''time'', PStr ''2024-03-09 07:05:00.001234''), (''level'', PStr ''CRITICAL''),
      (''message'', PStr ''boom''), (''filename'', PStr ''Main.qml''), (''lineno'', PInt 31),
      (''module'', PStr ''qml''), (''funcName'', PStr ''()=>{}''), (''exc_text'', PNone),
      (''stack_info'', PNone), (''thread'', PInt 1), (''threadName'', PStr ''MainThread''),
      (''process'', PInt 4242), (''processName'', PStr ''MainProcess''),
      (''name'', PStr ''Umi-OCR'')]"

definition qt_json :: string where
  "qt_json =
     json_object
       [(''time'', json_str ''2024-03-09 07:05:00.001234''), (''level'', json_str ''CRITICAL''),
        (''message'', json_str ''boom''), (''filename'', json_str ''Main.qml''),
        (''lineno'', ''31''), (''module'', json_str ''qml''), (''funcName'', json_str ''()=>{}''),
        (''exc_text'', ''null''), (''stack_info'', ''null''), (''thread'', ''1''),
        (''threadName'', json_str ''MainThread''), (''process'', ''4242''),
        (''processName'', json_str ''MainProcess''), (''name'', json_str ''Umi-OCR'')]"

section \<open>Properties of the text output writer\<close>

lemma add_fragments_texts:
  "map (\<lambda>r. getitem_str r ''text'') rs = map (\<lambda>t. Some (PStr t)) ts \<Longrightarrow>
   add_fragments acc rs = Some (acc @ concat (map (\<lambda>t. t @ [CHR 0x0A]) ts))"
proof (induction rs arbitrary: acc ts)
  case Nil
  then show ?case by simp
next
  case (Cons r rs)
  then obtain t ts' where ts: "ts = t # ts'" by (cases ts) auto
  with Cons.prems have r: "getitem_str r ''text'' = Some (PStr t)"
    and rest: "map (\<lambda>r. getitem_str r ''text'') rs = map (\<lambda>t. Some (PStr t)) ts'" by auto
  show ?case using Cons.IH [OF rest] r ts by simp
qed

text \<open>
  C9. \<open>OutputTxt.print\<close>: a result with code 101 while \<open>ingoreBlank\<close> is set returns
  without touching the file system. A result with code 100 whose \<open>data\<close> is a list of
  fragments with the texts \<open>ts\<close> appends to the output file the header line with the
  file name, then each text followed by a newline, then one empty line; no other file
  changes.
\<close>

theorem print_ignore_blank_and_fragments:
  "(getitem_str res ''code'' = Some (PInt 101) \<and> truthy (ingoreBlank self)
      \<longrightarrow> OutputTxt_print lib self res w = Some w)
   \<and> (getitem_str res ''code'' = Some (PInt 100) \<and> getitem_str res ''fileName'' = Some fn
        \<and> getitem_str res ''data'' = Some (PList rs)
        \<and> map (\<lambda>r. getitem_str r ''text'') rs = map (\<lambda>t. Some (PStr t)) ts
        \<and> openable w (outputPath self)
      \<longrightarrow> (\<exists>w'. OutputTxt_print lib self res w = Some w'
            \<and> files w' (outputPath self) =
                Some (content w (outputPath self) @ header_open @ py_str lib fn @ header_close
                      @ concat (map (\<lambda>t. t @ [CHR 0x0A]) ts) @ [CHR 0x0A])
            \<and> (\<forall>q. q \<noteq> outputPath self \<longrightarrow> files w' q = files w q)))"
  by (auto simp: OutputTxt_print_def add_fragments_texts open_append_def fwrite_def content_def)

theorem print_ignore_blank_and_fragments_witness:
  "OutputTxt_print example_lib example_writer example_blank example_fs = Some example_fs
   \<and> (\<exists>w'. OutputTxt_print example_lib example_writer example_res example_fs = Some w'
         \<and> files w' ''out/run.txt'' =
             Some (''2024-03-09'' @ [CHR 0x0A, CHR 0x0A] @ header_open @ ''b.png'' @ header_close
                   @ ''Hello'' @ [CHR 0x0A] @ ''World'' @ [CHR 0x0A] @ [CHR 0x0A]))"
  using print_ignore_blank_and_fragments
          [where res = example_blank and self = example_writer and lib = example_lib
             and w = example_fs]
        print_ignore_blank_and_fragments
          [where res = example_res and self = example_writer and lib = example_lib
             and w = example_fs and fn = "PStr ''b.png''" and ts = "[''Hello'', ''World'']"
             and rs = "[PDict [(PStr ''text'', PStr ''Hello''), (PStr ''score'', PObj ''0.99'')],
                        PDict [(PStr ''text'', PStr ''World'')]]"]
  by (auto simp: example_blank_def example_res_def example_writer_def example_fs_def content_def)


section \<open>Properties of the console formatter\<close>




lemma cache_exc_text_other:
  "cache_exc_text lib r = Some r' \<Longrightarrow> k \<noteq> ''exc_text'' \<Longrightarrow> r' k = r k"
  by (auto simp: cache_exc_text_def split: bind_splits if_splits)








section \<open>Properties of the override filter\<close>

lemma plain_name_setattr:
  "plain_name k \<Longrightarrow> \<exists>name. k = PStr name \<and> setattr r name v = Some (r(name \<mapsto> v))"
  by (cases k) (simp_all add: setattr_def)

lemma cover_loop_strings:
  "list_all plain_name (map fst kvs) \<Longrightarrow> snd (cover_loop lib r kvs)"
proof (induction kvs arbitrary: r)
  case Nil
  show ?case by simp
next
  case (Cons kv kvs)
  obtain k v where kv: "kv = (k, v)" by (cases kv)
  with Cons.prems have "plain_name k" by simp
  from plain_name_setattr [OF this, of r v] obtain name where
    k: "k = PStr name" and s: "setattr r name v = Some (r(name \<mapsto> v))" by blast
  from Cons.prems have "list_all plain_name (map fst kvs)" by simp
  from Cons.IH [OF this] show ?case by (simp add: kv k s)
qed

lemma cover_loop_lookup:
  assumes "list_all plain_name (map fst kvs)" and "distinct (map fst kvs)"
  shows "fst (cover_loop lib r kvs) name =
           (case map_of kvs (PStr name) of
              None \<Rightarrow> r name
            | Some v \<Rightarrow> if hasattr lib r name then Some v else None)"
  using assms
proof (induction kvs arbitrary: r)
  case Nil
  show ?case by simp
next
  case (Cons kv kvs)
  obtain k v where kv: "kv = (k, v)" by (cases kv)
  with Cons.prems have "plain_name k" by simp
  from plain_name_setattr [OF this, of r v] obtain n where
    k: "k = PStr n" and s: "setattr r n v = Some (r(n \<mapsto> v))" by blast
  from Cons.prems have plain: "list_all plain_name (map fst kvs)"
    and dist: "distinct (map fst kvs)" and fresh: "PStr n \<notin> fst ` set kvs"
    by (auto simp: kv k)
  from fresh have none: "map_of kvs (PStr n) = None"
    by (simp add: map_of_eq_None_iff)
  define r1 where "r1 = (if hasattr lib r n then r(n \<mapsto> v) else r)"
  have step: "cover_loop lib r (kv # kvs) = cover_loop lib r1 kvs"
    by (simp add: kv k s r1_def)
  have IH: "fst (cover_loop lib r1 kvs) name =
           (case map_of kvs (PStr name) of
              None \<Rightarrow> r1 name
            | Some v \<Rightarrow> if hasattr lib r1 name then Some v else None)"
    by (rule Cons.IH [OF plain dist])
  show ?case
  proof (cases "name = n")
    case True
    then show ?thesis
      unfolding step IH by (simp add: kv k none r1_def hasattr_def)
  next
    case False
    then show ?thesis
      unfolding step IH by (simp add: kv k r1_def hasattr_def split: option.split)
  qed
qed

lemma CoverFilter_filter_ok:
  "snd (cover_try lib r) \<Longrightarrow> CoverFilter_filter lib r w = Some (True, fst (cover_try lib r), w)"
  by (cases "cover_try lib r") (simp add: CoverFilter_filter.simps)

lemma Filterer_filter_no_cover:
  "r ''cover'' = None \<Longrightarrow> Filterer_filter lib fs r w = Some (True, r, w)"
  by (induction fs) (simp_all add: CoverFilter_filter_ok cover_try_no_cover)

lemma Formatter_format_keeps:
  "k \<notin> {''message'', ''asctime'', ''exc_text''} \<Longrightarrow> fst (Formatter_format lib r) k = r k"
  by (auto simp: Formatter_format_def Let_def split: option.splits dest: cache_exc_text_other)

lemma LevelFormatter_format_keeps:
  "k \<notin> {''levelsymbol'', ''message'', ''asctime'', ''exc_text''}
   \<Longrightarrow> fst (LevelFormatter_format lib r) k = r k"
  by (auto simp: LevelFormatter_format_def Formatter_format_keeps split: option.splits)

lemma StreamHandler_emit_fst:
  "fst (StreamHandler_emit lib h r w) = fst (LevelFormatter_format lib r)"
  by (simp add: StreamHandler_emit_def split: prod.split option.split)

lemma Handler_handle_keeps:
  "k \<notin> {''levelsymbol'', ''message'', ''asctime'', ''exc_text''}
   \<Longrightarrow> fst (Handler_handle lib h r w) k = r k"
  by (cases h) (simp_all add: StreamHandler_emit_fst LevelFormatter_format_keeps)

lemma callHandlers_total:
  "r ''levelno'' = Some (PInt n) \<Longrightarrow> \<exists>r' w'. callHandlers lib hs r w = Some (r', w')"
proof (induction hs arbitrary: r w)
  case Nil
  show ?case by simp
next
  case (Cons h hs)
  have "fst (Handler_handle lib h r w) ''levelno'' = Some (PInt n)"
    using Cons.prems by (simp add: Handler_handle_keeps)
  then show ?case
    using Cons.IH Cons.prems by (auto split: prod.splits)
qed


lemma Logger_log_enabled:
  assumes "getEffectiveLevel (loggers w name) \<le> level"
    and "Filterer_filter lib (lfilters (loggers w name))
           (makeRecord ci name level msg cover exc_info stack_info) w = Some (True, r, w)"
  shows "Logger_log lib name level msg cover exc_info stack_info ci w
           = map_option snd (callHandlers lib (lhandlers (loggers w name)) r w)"
  using assms by (simp add: Logger_log.simps [of lib name level] Let_def)

lemma filter_error_logged:
  "\<exists>w'. Logger_log lib ''Umi-OCR'' 40 (PStr filter_error_msg) None True True (filter_site lib) w = Some w'"
proof -
  define err where "err = makeRecord (filter_site lib) ''Umi-OCR'' 40 (PStr filter_error_msg) None True True"
  have "err ''cover'' = None"
    by (simp add: err_def makeRecord_cover)
  then have filt: "Filterer_filter lib (lfilters (loggers w ''Umi-OCR'')) err w = Some (True, err, w)"
    by (rule Filterer_filter_no_cover)
  have "err ''levelno'' = Some (PInt 40)"
    by (simp add: err_def makeRecord_def LogRecord_def)
  from callHandlers_total [of err 40 lib "lhandlers (loggers w ''Umi-OCR'')" w] this
  obtain err' w1 where "callHandlers lib (lhandlers (loggers w ''Umi-OCR'')) err w = Some (err', w1)"
    by blast
  with filt show ?thesis
    by (simp add: Logger_log.simps [of lib "''Umi-OCR''" 40] Let_def err_def [symmetric])
qed

lemma CoverFilter_filter_raised:
  assumes "\<not> snd (cover_try lib r)"
  shows "map_option fst (CoverFilter_filter lib r w) = Some False"
proof -
  from filter_error_logged [of lib w] obtain w' where
    "Logger_log lib ''Umi-OCR'' 40 (PStr filter_error_msg) None True True (filter_site lib) w = Some w'"
    by blast
  with assms show ?thesis
    by (cases "cover_try lib r") (simp add: CoverFilter_filter.simps)
qed

lemma example_class_try:
  "cover_try example_lib example_class_record = (example_class_record, False)"
  by (simp add: cover_try_def example_class_record_def hasattr_def setattr_def example_lib_def)

text \<open>
  C2, as stated, fails: a record whose override map is \<open>{"__class__": 5}\<close>. The name is an
  attribute of the record, but it takes only a class: \<open>setattr\<close> raises, the filter goes
  to its \<open>except\<close> branch and returns false.
\<close>

theorem cover_filter_class_override_rejected:
  "example_class_record ''cover'' = Some (PDict [(PStr ''__class__'', PInt 5)])
   \<and> hasattr example_lib example_class_record ''__class__''
   \<and> map_option fst (CoverFilter_filter example_lib example_class_record example_world) = Some False"
proof -
  have "\<not> snd (cover_try example_lib example_class_record)"
    by (simp add: example_class_try)
  from CoverFilter_filter_raised [OF this, of example_world] show ?thesis
    by (simp add: example_class_record_def hasattr_def example_lib_def)
qed

text \<open>
  C2, amended. A record that carries an override map whose keys are strings, none of
  them \<open>__class__\<close>, \<open>__dict__\<close> or \<open>__weakref__\<close>: the filter returns true and leaves the
  process state alone; afterwards every attribute that the record had (in the instance or
  from its class) and that the map names has the map's value, every attribute the map
  does not name is as before, and a name that was no attribute of the record is still
  not one.
\<close>

theorem cover_filter_overrides:
  assumes "record ''cover'' = Some (PDict kvs)"
    and "list_all plain_name (map fst kvs)"
    and "distinct (map fst kvs)"
  shows "\<exists>record'. CoverFilter_filter lib record w = Some (True, record', w)
         \<and> (\<forall>name v. (PStr name, v) \<in> set kvs \<and> hasattr lib record name \<longrightarrow> record' name = Some v)
         \<and> (\<forall>name. PStr name \<notin> fst ` set kvs \<longrightarrow> record' name = record name)
         \<and> (\<forall>name. \<not> hasattr lib record name \<longrightarrow> record' name = None \<and> \<not> hasattr lib record' name)"
proof -
  have t: "cover_try lib record = cover_loop lib record kvs"
    using assms(1) by (simp add: cover_try_def)
  have ok: "snd (cover_try lib record)"
    using cover_loop_strings [OF assms(2)] by (simp add: t)
  define record' where "record' = fst (cover_try lib record)"
  have l: "record' name =
           (case map_of kvs (PStr name) of
              None \<Rightarrow> record name
            | Some v \<Rightarrow> if hasattr lib record name then Some v else None)" for name
    unfolding record'_def t by (rule cover_loop_lookup [OF assms(2,3)])
  have 1: "CoverFilter_filter lib record w = Some (True, record', w)"
    unfolding record'_def by (rule CoverFilter_filter_ok [OF ok])
  have 2: "\<forall>name v. (PStr name, v) \<in> set kvs \<and> hasattr lib record name \<longrightarrow> record' name = Some v"
    using assms(3) by (auto simp: l)
  have 3: "\<forall>name. PStr name \<notin> fst ` set kvs \<longrightarrow> record' name = record name"
    by (force simp: l split: option.split dest: map_of_SomeD)
  have 4: "\<forall>name. \<not> hasattr lib record name \<longrightarrow> record' name = None \<and> \<not> hasattr lib record' name"
    by (auto simp: l hasattr_def split: option.split)
  from 1 2 3 4 show ?thesis by blast
qed

theorem cover_filter_overrides_witness:
  "\<exists>record'. CoverFilter_filter example_lib example_cover_record example_world
                = Some (True, record', example_world)
     \<and> record' ''filename'' = Some (PStr ''test.txt'')
     \<and> record' ''lineno'' = Some (PInt 999)
     \<and> record' ''nosuch'' = None
     \<and> record' ''funcName'' = example_cover_record ''funcName''"
proof -
  have c: "example_cover_record ''cover'' = Some (PDict example_cover)"
    by (simp add: example_cover_record_def)
  have s: "list_all plain_name (map fst example_cover)"
    by (simp add: example_cover_def)
  have d: "distinct (map fst example_cover)"
    by (simp add: example_cover_def)
  from cover_filter_overrides [of example_cover_record example_cover example_lib example_world] c s d
  obtain record' where
    1: "CoverFilter_filter example_lib example_cover_record example_world
          = Some (True, record', example_world)"
    and 2: "\<forall>name v. (PStr name, v) \<in> set example_cover \<and> hasattr example_lib example_cover_record name
               \<longrightarrow> record' name = Some v"
    and 3: "\<forall>name. PStr name \<notin> fst ` set example_cover \<longrightarrow> record' name = example_cover_record name"
    and 4: "\<forall>name. \<not> hasattr example_lib example_cover_record name
               \<longrightarrow> record' name = None \<and> \<not> hasattr example_lib record' name"
    by blast
  have h: "hasattr example_lib example_cover_record ''filename''"
    "hasattr example_lib example_cover_record ''lineno''"
    "\<not> hasattr example_lib example_cover_record ''nosuch''"
    by (simp_all add: hasattr_def example_cover_record_def example_record_def LogRecord_def
          example_lib_def)
  have "record' ''filename'' = Some (PStr ''test.txt'')"
    using 2 h(1) by (simp add: example_cover_def)
  moreover have "record' ''lineno'' = Some (PInt 999)"
    using 2 h(2) by (simp add: example_cover_def)
  moreover have "record' ''nosuch'' = None"
    using 4 h(3) by simp
  moreover have "record' ''funcName'' = example_cover_record ''funcName''"
    using 3 by (simp add: example_cover_def)
  ultimately show ?thesis using 1 by blast
qed

text \<open>
  C6. When the body of the filter's \<open>try\<close> raises (the \<open>cover\<close> is not a dict, one of
  its keys is not a string, or setting an attribute raises), the filter raises nothing
  and returns false with the record as the loop left it. The state it leaves is the state after the one call
  \<open>logger.error(..., exc_info=True, stack_info=True)\<close> on the module's logger. The record
  of that call has level ERROR, the exception and the stack text, and no \<open>cover\<close>; the
  logger's filters pass it unchanged without logging anything, and (unless the logger's
  level is above ERROR) its handlers are called on it once.
\<close>

theorem cover_filter_failure:
  assumes "\<not> snd (cover_try lib record)"
  shows "\<exists>w'. CoverFilter_filter lib record w = Some (False, fst (cover_try lib record), w')
     \<and> Logger_log lib ''Umi-OCR'' 40 (PStr filter_error_msg) None True True (filter_site lib) w = Some w'
     \<and> (\<exists>err. err = makeRecord (filter_site lib) ''Umi-OCR'' 40 (PStr filter_error_msg) None True True
         \<and> err ''cover'' = None \<and> err ''levelname'' = Some (PStr ''ERROR'')
         \<and> err ''exc_info'' = Some (ci_exc_info (filter_site lib))
         \<and> err ''stack_info'' = Some (ci_stack (filter_site lib))
         \<and> Filterer_filter lib (lfilters (loggers w ''Umi-OCR'')) err w = Some (True, err, w)
         \<and> (if 40 < getEffectiveLevel (loggers w ''Umi-OCR'') then w' = w
             else \<exists>err'. callHandlers lib (lhandlers (loggers w ''Umi-OCR'')) err w = Some (err', w')))"
proof -
  define err where "err = makeRecord (filter_site lib) ''Umi-OCR'' 40 (PStr filter_error_msg) None True True"
  define logger where "logger = loggers w ''Umi-OCR''"
  have nc: "err ''cover'' = None"
    by (simp add: err_def makeRecord_cover)
  have attrs: "err ''levelname'' = Some (PStr ''ERROR'')" "err ''levelno'' = Some (PInt 40)"
    "err ''exc_info'' = Some (ci_exc_info (filter_site lib))"
    "err ''stack_info'' = Some (ci_stack (filter_site lib))"
    by (simp_all add: err_def makeRecord_def LogRecord_def getLevelName_def)
  have filt: "Filterer_filter lib (lfilters logger) err w = Some (True, err, w)"
    using nc by (rule Filterer_filter_no_cover)
  from callHandlers_total [of err 40 lib "lhandlers logger" w] attrs(2)
  obtain err' w1 where ch: "callHandlers lib (lhandlers logger) err w = Some (err', w1)" by blast
  define w' where "w' = (if 40 < getEffectiveLevel logger then w else w1)"
  have log: "Logger_log lib ''Umi-OCR'' 40 (PStr filter_error_msg) None True True (filter_site lib) w = Some w'"
    using filt ch
    by (simp add: Logger_log.simps [of lib "''Umi-OCR''" 40] Let_def err_def [symmetric]
          logger_def [symmetric] w'_def)
  have res: "CoverFilter_filter lib record w = Some (False, fst (cover_try lib record), w')"
    using assms log by (cases "cover_try lib record") (simp add: CoverFilter_filter.simps)
  have last: "if 40 < getEffectiveLevel logger then w' = w
             else \<exists>err'. callHandlers lib (lhandlers logger) err w = Some (err', w')"
    using ch by (simp add: w'_def)
  from res log nc attrs filt last show ?thesis
    unfolding err_def logger_def by blast
qed


lemma example_bad_try:
  "cover_try example_lib example_bad_record = (example_bad_record(''lineno'' \<mapsto> PInt 7), False)"
  by (simp add: cover_try_def example_bad_record_def hasattr_def setattr_def example_record_def
        LogRecord_def)

theorem cover_filter_failure_witness:
  "\<exists>w'. CoverFilter_filter example_lib example_bad_record example_world
          = Some (False, example_bad_record(''lineno'' \<mapsto> PInt 7), w')
      \<and> Logger_log example_lib ''Umi-OCR'' 40 (PStr filter_error_msg) None True True
              example_site example_world = Some w'"
proof -
  have f: "\<not> snd (cover_try example_lib example_bad_record)"
    by (simp add: example_bad_try)
  from cover_filter_failure [of example_lib example_bad_record example_world] f
  obtain w' where
    1: "CoverFilter_filter example_lib example_bad_record example_world
          = Some (False, fst (cover_try example_lib example_bad_record), w')"
    and 2: "Logger_log example_lib ''Umi-OCR'' 40 (PStr filter_error_msg) None True True
              (filter_site example_lib) example_world = Some w'"
    by blast
  have s: "filter_site example_lib = example_site" by (simp add: example_lib_def)
  from 1 2 show ?thesis by (auto simp: example_bad_try s)
qed


section \<open>Properties of the JSON file handler\<close>

lemma digit_char_digit: "digit_char n \<in> set ''0123456789''"
  unfolding digit_char_def by (rule nth_mem) simp

lemma decimal_digits: "set (decimal n) \<subseteq> set ''0123456789''"
proof (induction n rule: decimal.induct)
  case (1 n)
  show ?case
  proof (cases "10 \<le> n")
    case True
    with 1 have "set (decimal (n div 10)) \<subseteq> set ''0123456789''" by simp
    with digit_char_digit [of n] show ?thesis
      by (subst decimal.simps) (simp add: True)
  next
    case False
    with digit_char_digit [of n] show ?thesis
      by (subst decimal.simps) simp
  qed
qed

lemma decimal_length: "n < 10 ^ k \<Longrightarrow> 0 < k \<Longrightarrow> length (decimal n) \<le> k"
proof (induction n arbitrary: k rule: decimal.induct)
  case (1 n)
  show ?case
  proof (cases "10 \<le> n")
    case True
    from 1(3) obtain j where k: "k = Suc j" by (cases k) auto
    have j: "0 < j"
    proof (rule ccontr)
      assume "\<not> 0 < j"
      with 1(2) k True show False by simp
    qed
    from 1(2) k have "n div 10 < 10 ^ j" by (simp add: less_mult_imp_div_less)
    from 1(1) [OF True this j] show ?thesis
      by (subst decimal.simps) (simp add: True k)
  next
    case False
    with 1(3) show ?thesis by (subst decimal.simps) simp
  qed
qed

lemma matches_digits: "set s \<subseteq> set ''0123456789'' \<Longrightarrow> matches_pattern (replicate (length s) (CHR ''d'')) s"
  by (induction s) auto

lemma matches_append:
  "matches_pattern p s \<Longrightarrow> matches_pattern q t \<Longrightarrow> matches_pattern (p @ q) (s @ t)"
  by (induction p s rule: matches_pattern.induct) auto

lemma pad_shape:
  assumes "n < 10 ^ k" and "0 < k"
  shows "matches_pattern (replicate k (CHR ''d'')) (pad k n)"
proof -
  have l: "length (pad k n) = k"
    using decimal_length [OF assms] by (simp add: pad_def zfill_def)
  have "set (pad k n) \<subseteq> set ''0123456789''"
    using decimal_digits [of n] by (auto simp: pad_def zfill_def)
  from matches_digits [OF this] show ?thesis by (simp add: l)
qed

lemma strftime_full_shape:
  assumes "year dt < 10000" "month dt < 100" "day dt < 100" "hour dt < 100" "minute dt < 100"
    "second dt < 100" "microsecond dt < 1000000"
  shows "time_shape (strftime_full dt)"
proof -
  have r4: "replicate 4 (CHR ''d'') = ''dddd''" and r2: "replicate 2 (CHR ''d'') = ''dd''"
    and r6: "replicate 6 (CHR ''d'') = ''dddddd''"
    by (simp_all add: numeral_eq_Suc)
  have "year dt < 10 ^ 4" using assms(1) by simp
  from pad_shape [OF this] have y: "matches_pattern ''dddd'' (pad 4 (year dt))"
    by (simp only: r4 zero_less_numeral)
  have two: "matches_pattern ''dd'' (pad 2 n)" if "n < 100" for n
  proof -
    from that have "n < 10 ^ 2" by simp
    from pad_shape [OF this] show ?thesis by (simp only: r2 zero_less_numeral)
  qed
  have "microsecond dt < 10 ^ 6" using assms(7) by simp
  from pad_shape [OF this] have u: "matches_pattern ''dddddd'' (pad 6 (microsecond dt))"
    by (simp only: r6 zero_less_numeral)
  have lit: "matches_pattern ''-'' ''-''" "matches_pattern '' '' '' ''" "matches_pattern '':'' '':''"
    "matches_pattern ''.'' ''.''" by simp_all
  have "matches_pattern (''dddd'' @ ''-'' @ ''dd'' @ ''-'' @ ''dd'' @ '' '' @ ''dd'' @ '':'' @ ''dd''
          @ '':'' @ ''dd'' @ ''.'' @ ''dddddd'') (strftime_full dt)"
    unfolding strftime_full_def strftime_date_def strftime_hms_def append_assoc
    by (intro matches_append y two u lit assms)
  then show ?thesis by (simp add: time_shape_def)
qed

lemma hex_digit_no_newline: "hex_digit n \<noteq> CHR 0x0A"
proof -
  have "hex_digit n \<in> set ''0123456789abcdef''"
    unfolding hex_digit_def by (rule nth_mem) simp
  then show ?thesis by auto
qed

lemma json_escape_no_newline: "CHR 0x0A \<notin> set (json_escape c)"
  using hex_digit_no_newline [of "of_char c div 16"] hex_digit_no_newline [of "of_char c"]
  by (auto simp: json_escape_def)

lemma json_str_no_newline: "CHR 0x0A \<notin> set (json_str s)"
  by (auto simp: json_str_def json_escape_no_newline)

lemma int_str_no_newline: "CHR 0x0A \<notin> set (int_str i)"
  using decimal_digits [of "nat i"] decimal_digits [of "nat (- i)"]
  by (auto simp: int_str_def)

lemma iterencode_no_newline:
  "CHR 0x0A \<notin> set (fst (iterencode v))"
  "CHR 0x0A \<notin> set (fst (iterencode_list first xs))"
  "CHR 0x0A \<notin> set (fst (iterencode_dict first' kvs))"
proof (induction v and first xs and first' kvs rule: iterencode_iterencode_list_iterencode_dict.induct)
  case (1 s)
  show ?case by (simp add: json_str_no_newline)
next
  case (4 i)
  show ?case by (simp add: int_str_no_newline)
next
  case (5 xs)
  then show ?case by (auto split: prod.splits)
next
  case (6 kvs)
  then show ?case by (auto split: prod.splits)
next
  case (9 first x xs)
  obtain s ok where sx: "iterencode x = (s, ok)" by (cases "iterencode x")
  obtain t ok' where tx: "iterencode_list False xs = (t, ok')"
    by (cases "iterencode_list False xs")
  from 9(1) sx have s: "CHR 0x0A \<notin> set s" by simp
  have t: "ok \<Longrightarrow> CHR 0x0A \<notin> set t"
    using 9(2) [of "if first then [] else '', ''" s ok] sx tx by simp
  show ?case using s t by (cases ok) (auto simp: sx tx Let_def)
next
  case (11 first k v kvs)
  show ?case
  proof (cases "key_str k")
    case None
    then show ?thesis by simp
  next
    case (Some ks)
    obtain s ok where sv: "iterencode v = (s, ok)" by (cases "iterencode v")
    obtain t ok' where tk: "iterencode_dict False kvs = (t, ok')"
      by (cases "iterencode_dict False kvs")
    from 11(1) [OF Some refl] sv have s: "CHR 0x0A \<notin> set s" by simp
    have t: "ok \<Longrightarrow> CHR 0x0A \<notin> set t"
      using 11(2) [OF Some refl, of s ok] sv tk by simp
    show ?thesis using s t json_str_no_newline [of ks]
      by (cases ok) (auto simp: Some sv tk Let_def)
  qed
qed simp_all

lemma iterencode_dict_join:
  assumes "iterencode_dict first (map (\<lambda>(k, v). (PStr k, v)) d) = (s, True)" and "d \<noteq> []"
  shows "s = (if first then [] else '', '') @ join_fields (map (\<lambda>(k, v). (k, fst (iterencode v))) d)"
  using assms
proof (induction d arbitrary: first s)
  case Nil
  then show ?case by simp
next
  case (Cons kv d)
  obtain k v where kv: "kv = (k, v)" by (cases kv)
  obtain e ok where e: "iterencode v = (e, ok)" by (cases "iterencode v")
  obtain t ok' where t: "iterencode_dict False (map (\<lambda>(k, v). (PStr k, v)) d) = (t, ok')"
    by (cases "iterencode_dict False (map (\<lambda>(k, v). (PStr k, v)) d)")
  from Cons.prems(1) have ok: "ok" and ok': "ok'"
    and s: "s = (if first then [] else '', '') @ json_str k @ '': '' @ e @ t"
    by (auto simp: kv e t Let_def split: if_splits)
  show ?case
  proof (cases d)
    case Nil
    with t have "t = []" by simp
    then show ?thesis by (simp add: s kv e Nil)
  next
    case (Cons kv' d')
    then have "d \<noteq> []" by simp
    from Cons.IH [OF _ this, of False t] t ok'
    have "t = '', '' @ join_fields (map (\<lambda>(k, v). (k, fst (iterencode v))) d)" by simp
    then show ?thesis by (simp add: s kv e Cons)
  qed
qed

lemma iterencode_str_dict:
  assumes "iterencode (str_dict d) = (out, True)" and "d \<noteq> []"
  shows "out = json_object (map (\<lambda>(k, v). (k, fst (iterencode v))) d)"
proof -
  obtain s ok where s: "iterencode_dict True (map (\<lambda>(k, v). (PStr k, v)) d) = (s, ok)"
    by (cases "iterencode_dict True (map (\<lambda>(k, v). (PStr k, v)) d)")
  from assms s have ok: "ok" and out: "out = ''{'' @ s @ ''}''"
    by (auto simp: str_dict_def split: if_splits)
  from iterencode_dict_join [OF _ assms(2), of True s] s ok
  show ?thesis by (simp add: out json_object_def)
qed

lemma replicate_two: "replicate 2 c = [c, c]"
  by (simp add: numeral_2_eq_2)

lemma example_times:
  "strftime_date example_dt = ''2024-03-09''"
  "strftime_hms example_dt = ''07:05:00''"
  "strftime_full example_dt = ''2024-03-09 07:05:00.001234''"
  by (simp_all add: strftime_full_def strftime_date_def strftime_hms_def pad_def zfill_def
        example_dt_def decimal.simps digit_char_def replicate_two)

lemma example_handler_file: "baseFilename example_json_handler = ''./logs/2024-03-09.jsonl.txt''"
  by (simp add: example_json_handler_def get_json_handler_def fresh_world_def log_dir_def
        Let_def example_times)

lemma example_message: "getMessage example_lib example_record = Some ''3 pages''"
  by (simp add: getMessage_def example_record_def LogRecord_def example_lib_def)

lemma example_to_dict: "record_to_dict example_lib example_record = Some example_dict"
  by (simp add: record_to_dict_def example_message example_times example_dict_def)
     (simp add: example_record_def LogRecord_def example_lib_def example_site_def example_times)

lemma example_ints: "int_str 12 = ''12''" "int_str 1 = ''1''" "int_str 4242 = ''4242''"
  by (simp_all add: int_str_def decimal.simps digit_char_def)

lemma example_encode: "iterencode (str_dict example_dict) = (example_line, True)"
  by (simp add: str_dict_def example_dict_def example_line_def json_object_def example_ints)

lemma record_to_dict_SomeD:
  assumes "record_to_dict lib record = Some d"
  shows "\<exists>dt message. Option.bind (record ''created'') (fromtimestamp lib) = Some dt
            \<and> getMessage lib record = Some message
            \<and> map (\<lambda>(k, v). (k, Some v)) d =
                json_fields record (strftime_full dt) message"
  using assms unfolding record_to_dict_def Let_def json_fields_def
  by (auto split: bind_splits)

lemma emit_success:
  assumes "record_to_dict lib record = Some d"
    and "iterencode (str_dict d) = (out, True)"
    and "openable w (baseFilename self)"
  shows "JsonRotatingFileHandler_emit lib self record w =
           w\<lparr>files := (files w)(baseFilename self \<mapsto> content w (baseFilename self) @ out @ [CHR 0x0A])\<rparr>"
  using assms
  by (simp add: JsonRotatingFileHandler_emit_def open_append_def fwrite_def content_def)

text \<open>
  C4. When \<open>emit\<close> succeeds (the record converts to the dict \<open>d\<close>, the file can be opened
  and the encoder writes \<open>d\<close> whole as \<open>out\<close>), the target file afterwards is its
  earlier content followed by \<open>out\<close> and one newline; no other file changes and nothing
  is reported as an error. \<open>out\<close> holds no newline, and it is the JSON object of the
  fourteen fields in the order time, level, message, filename, lineno, module, funcName,
  exc\_text, stack\_info, thread, threadName, process, processName, name, each with the
  encoding of the record's attribute; \<open>None\<close> is encoded as \<open>null\<close>. The time is the
  record's creation time in the form \<open>dddd-dd-dd dd:dd:dd.dddddd\<close>, the message is the
  resolved message. The model opens and closes the file inside \<open>emit\<close>: a handler keeps
  no open file between records.
\<close>

theorem emit_appends_one_json_line:
  assumes "record_to_dict lib record = Some d"
    and "iterencode (str_dict d) = (out, True)"
    and "openable w (baseFilename self)"
  shows "files (JsonRotatingFileHandler_emit lib self record w) (baseFilename self)
           = Some (content w (baseFilename self) @ out @ [CHR 0x0A])
       \<and> (\<forall>p. p \<noteq> baseFilename self
              \<longrightarrow> files (JsonRotatingFileHandler_emit lib self record w) p = files w p)
       \<and> handled (JsonRotatingFileHandler_emit lib self record w) = handled w
       \<and> CHR 0x0A \<notin> set out
       \<and> out = json_object (map (\<lambda>(k, v). (k, fst (iterencode v))) d)
       \<and> fst (iterencode PNone) = ''null''
       \<and> (\<exists>dt message. Option.bind (record ''created'') (fromtimestamp lib) = Some dt
            \<and> getMessage lib record = Some message
            \<and> map (\<lambda>(k, v). (k, Some v)) d =
                json_fields record (strftime_full dt) message
            \<and> (year dt < 10000 \<and> month dt < 100 \<and> day dt < 100 \<and> hour dt < 100
                 \<and> minute dt < 100 \<and> second dt < 100 \<and> microsecond dt < 1000000
                 \<longrightarrow> time_shape (strftime_full dt)))"
proof -
  note e = emit_success [OF assms]
  have 1: "files (JsonRotatingFileHandler_emit lib self record w) (baseFilename self)
           = Some (content w (baseFilename self) @ out @ [CHR 0x0A])"
    by (simp add: e)
  have 2: "\<forall>p. p \<noteq> baseFilename self
              \<longrightarrow> files (JsonRotatingFileHandler_emit lib self record w) p = files w p"
    by (simp add: e)
  have 3: "handled (JsonRotatingFileHandler_emit lib self record w) = handled w"
    by (simp add: e)
  have 4: "CHR 0x0A \<notin> set out"
    using iterencode_no_newline(1) [of "str_dict d"] assms(2) by simp
  from record_to_dict_SomeD [OF assms(1)] obtain dt message where
    dt: "Option.bind (record ''created'') (fromtimestamp lib) = Some dt"
    and m: "getMessage lib record = Some message"
    and d: "map (\<lambda>(k, v). (k, Some v)) d =
                json_fields record (strftime_full dt) message"
    by blast
  from d have "d \<noteq> []" by (auto simp: json_fields_def)
  from iterencode_str_dict [OF assms(2) this]
  have 5: "out = json_object (map (\<lambda>(k, v). (k, fst (iterencode v))) d)" .
  have 6: "fst (iterencode PNone) = ''null''" by simp
  have 7: "year dt < 10000 \<and> month dt < 100 \<and> day dt < 100 \<and> hour dt < 100
                 \<and> minute dt < 100 \<and> second dt < 100 \<and> microsecond dt < 1000000
                 \<longrightarrow> time_shape (strftime_full dt)"
    using strftime_full_shape [of dt] by blast
  from dt m d 7 have 8: "\<exists>dt message. Option.bind (record ''created'') (fromtimestamp lib) = Some dt
            \<and> getMessage lib record = Some message
            \<and> map (\<lambda>(k, v). (k, Some v)) d =
                json_fields record (strftime_full dt) message
            \<and> (year dt < 10000 \<and> month dt < 100 \<and> day dt < 100 \<and> hour dt < 100
                 \<and> minute dt < 100 \<and> second dt < 100 \<and> microsecond dt < 1000000
                 \<longrightarrow> time_shape (strftime_full dt))"
    by blast
  from 1 2 3 4 5 6 8 show ?thesis by (intro conjI)
qed

theorem emit_appends_one_json_line_witness:
  "files (JsonRotatingFileHandler_emit example_lib example_json_handler example_record fresh_world)
      ''./logs/2024-03-09.jsonl.txt'' = Some (example_line @ [CHR 0x0A])
   \<and> CHR 0x0A \<notin> set example_line
   \<and> handled (JsonRotatingFileHandler_emit example_lib example_json_handler example_record fresh_world) = []"
proof -
  have o: "openable fresh_world (baseFilename example_json_handler)"
    by (simp add: fresh_world_def)
  have c: "content fresh_world ''./logs/2024-03-09.jsonl.txt'' = []"
    by (simp add: content_def fresh_world_def)
  have h: "handled fresh_world = []" by (simp add: fresh_world_def)
  from emit_appends_one_json_line [OF example_to_dict example_encode o]
  show ?thesis by (simp add: example_handler_file c h)
qed

lemma emit_only_appends:
  "\<exists>s. content (JsonRotatingFileHandler_emit lib self record w) (baseFilename self)
         = content w (baseFilename self) @ s"
  "p \<noteq> baseFilename self \<Longrightarrow> files (JsonRotatingFileHandler_emit lib self record w) p = files w p"
  by (auto simp: JsonRotatingFileHandler_emit_def open_append_def fwrite_def content_def
        handleError_def Let_def split: option.splits prod.splits)

lemma big_log_length: "length big_log = 10485760"
  by (simp add: big_log_def)

lemma example_handler_limits:
  "maxBytes example_json_handler = 10485760" "backupCount example_json_handler = 3"
  by (simp_all add: example_json_handler_def get_json_handler_def Let_def)

text \<open>
  C1 (the code does not do this). The handler that \<open>_get_json_handler\<close> builds has
  \<open>maxBytes\<close> 10485760 and \<open>backupCount\<close> 3, but \<open>emit\<close> never uses them: on a target file
  that already holds 10 MiB the record is appended to the same file, which then exceeds
  the limit, and no backup file appears.
\<close>

theorem emit_never_rotates:
  "maxBytes example_json_handler = 10485760 \<and> backupCount example_json_handler = 3
   \<and> length (content full_world (baseFilename example_json_handler)) = maxBytes example_json_handler
   \<and> files (JsonRotatingFileHandler_emit example_lib example_json_handler example_record full_world)
       = [baseFilename example_json_handler \<mapsto> big_log @ example_line @ [CHR 0x0A]]
   \<and> length (big_log @ example_line @ [CHR 0x0A]) > maxBytes example_json_handler"
proof -
  have o: "openable full_world (baseFilename example_json_handler)"
    by (simp add: full_world_def fresh_world_def)
  have c: "content full_world (baseFilename example_json_handler) = big_log"
    by (simp add: content_def full_world_def example_handler_file)
  have f: "files full_world = [baseFilename example_json_handler \<mapsto> big_log]"
    by (simp add: full_world_def example_handler_file)
  show ?thesis
    unfolding emit_success [OF example_to_dict example_encode o]
    by (simp add: example_handler_limits c f big_log_length)
qed

lemma unserialisable_message: "getMessage example_lib example_unserialisable = Some ''3 pages''"
  by (simp add: getMessage_def example_unserialisable_def example_record_def LogRecord_def example_lib_def)

lemma unserialisable_to_dict: "record_to_dict example_lib example_unserialisable = Some example_dict_bad"
  by (simp add: record_to_dict_def unserialisable_message example_times example_dict_bad_def)
     (simp add: example_unserialisable_def example_record_def LogRecord_def example_lib_def
        example_site_def example_times)

lemma unserialisable_encode: "iterencode (str_dict example_dict_bad) = (example_partial, False)"
  by (simp add: str_dict_def example_dict_bad_def example_partial_def)

lemma bad_args_to_dict: "record_to_dict example_lib example_bad_args = None"
  by (simp add: record_to_dict_def getMessage_def example_bad_args_def example_record_def
        LogRecord_def example_lib_def example_site_def)

lemma example_report:
  "error_report example_lib r = [''Traceback (most recent call last):'' @ [CHR 0x0A]]"
  by (simp add: example_lib_def)

lemma emit_unserialisable:
  "JsonRotatingFileHandler_emit example_lib example_json_handler example_unserialisable fresh_world =
     fresh_world\<lparr>files := [''./logs/2024-03-09.jsonl.txt'' \<mapsto> example_partial],
                 stderr := example_error_report,
                 handled := [(hid example_json_handler, example_unserialisable)]\<rparr>"
  by (simp add: JsonRotatingFileHandler_emit_def unserialisable_to_dict unserialisable_encode
        open_append_def fwrite_def content_def handleError_def example_handler_file fresh_world_def
        example_report example_error_report_def)

text \<open>
  A record whose message cannot take its arguments fails in the conversion. \<open>log_dict\<close> is
  then unbound, the second \<open>try\<close> still opens the file, which creates it, and fails in
  turn: \<open>handleError\<close> is called twice for the one record.
\<close>

lemma emit_conversion_failure_reported_twice:
  "handled (JsonRotatingFileHandler_emit example_lib example_json_handler example_bad_args fresh_world)
     = [(hid example_json_handler, example_bad_args), (hid example_json_handler, example_bad_args)]"
  "files (JsonRotatingFileHandler_emit example_lib example_json_handler example_bad_args fresh_world)
     = [''./logs/2024-03-09.jsonl.txt'' \<mapsto> []]"
  by (simp_all add: JsonRotatingFileHandler_emit_def bad_args_to_dict
        open_append_def content_def handleError_def example_handler_file fresh_world_def)

lemma emit_good_fresh:
  "files (JsonRotatingFileHandler_emit example_lib example_json_handler example_record fresh_world)
     ''./logs/2024-03-09.jsonl.txt'' = Some (example_line @ [CHR 0x0A])"
proof -
  have o: "openable fresh_world (baseFilename example_json_handler)"
    by (simp add: fresh_world_def)
  show ?thesis
    unfolding emit_success [OF example_to_dict example_encode o]
    by (simp add: example_handler_file content_def fresh_world_def)
qed

lemma emit_good_after_bad:
  "files (JsonRotatingFileHandler_emit example_lib example_json_handler example_record
           (JsonRotatingFileHandler_emit example_lib example_json_handler example_unserialisable fresh_world))
     ''./logs/2024-03-09.jsonl.txt'' = Some (example_partial @ example_line @ [CHR 0x0A])"
proof -
  define w1 where "w1 = JsonRotatingFileHandler_emit example_lib example_json_handler example_unserialisable fresh_world"
  have w1: "w1 = fresh_world\<lparr>files := [''./logs/2024-03-09.jsonl.txt'' \<mapsto> example_partial],
                 stderr := example_error_report,
                 handled := [(hid example_json_handler, example_unserialisable)]\<rparr>"
    unfolding w1_def by (rule emit_unserialisable)
  have o: "openable w1 (baseFilename example_json_handler)"
    by (simp add: w1 fresh_world_def)
  have c: "content w1 ''./logs/2024-03-09.jsonl.txt'' = example_partial"
    by (simp add: w1 content_def)
  show ?thesis
    unfolding w1_def [symmetric] emit_success [OF example_to_dict example_encode o]
    by (simp add: example_handler_file c)
qed

text \<open>
  C5 (the code does not do this). \<open>emit\<close> wraps the conversion and the writing in two
  \<open>try\<close> blocks so that a failing record is reported and lost alone, but \<open>json.dump\<close>
  writes the line piece by piece. A record whose \<open>filename\<close> was overridden with a path
  object, which JSON cannot serialise, makes it raise after the first fields are in the
  file. \<open>emit\<close> returns and the error is reported once, yet the text written so far stays
  in the file without a newline, and the line of the next record is glued to it: that
  record is no longer on a line of its own, as it is when it is emitted alone.
\<close>

theorem emit_failure_leaves_partial_line:
  "files (JsonRotatingFileHandler_emit example_lib example_json_handler example_unserialisable fresh_world)
        ''./logs/2024-03-09.jsonl.txt''
       = Some example_partial
   \<and> example_partial \<noteq> [] \<and> CHR 0x0A \<notin> set example_partial
   \<and> handled (JsonRotatingFileHandler_emit example_lib example_json_handler example_unserialisable fresh_world)
       = [(hid example_json_handler, example_unserialisable)]
   \<and> files (JsonRotatingFileHandler_emit example_lib example_json_handler example_record
             (JsonRotatingFileHandler_emit example_lib example_json_handler example_unserialisable fresh_world))
        ''./logs/2024-03-09.jsonl.txt''
       = Some (example_partial @ example_line @ [CHR 0x0A])
   \<and> files (JsonRotatingFileHandler_emit example_lib example_json_handler example_record fresh_world)
        ''./logs/2024-03-09.jsonl.txt''
       = Some (example_line @ [CHR 0x0A])"
proof -
  have f: "files (JsonRotatingFileHandler_emit example_lib example_json_handler
                    example_unserialisable fresh_world) ''./logs/2024-03-09.jsonl.txt''
             = Some example_partial"
    by (simp add: emit_unserialisable)
  have ne: "example_partial \<noteq> []" by (simp add: example_partial_def)
  have nl: "CHR 0x0A \<notin> set example_partial"
    using iterencode_no_newline(1) [of "str_dict example_dict_bad"]
    by (simp add: unserialisable_encode)
  have h: "handled (JsonRotatingFileHandler_emit example_lib example_json_handler
                      example_unserialisable fresh_world)
             = [(hid example_json_handler, example_unserialisable)]"
    by (simp add: emit_unserialisable)
  from f ne nl h emit_good_after_bad emit_good_fresh show ?thesis by (intro conjI)
qed


section \<open>Properties of the logger manager\<close>

lemma example_logger:
  "loggers example_world ''Umi-OCR'' =
     \<lparr>llevel = 10, lfilters = [0],
      lhandlers = [Console \<lparr>hid = 1, hlevel = 10\<rparr>,
                   Json \<lparr>hid = 2, hlevel = 10, baseFilename = ''./logs/2024-03-09.jsonl.txt'',
                         maxBytes = 10485760, backupCount = 3\<rparr>]\<rparr>"
  by (simp add: example_world_def create_logger_def fresh_world_def get_console_handler_def
        get_json_handler_def addFilter_def addHandler_def Let_def log_dir_def example_times)


lemma create_logger_frame:
  "files (create_logger name w) = files w" "openable (create_logger name w) = openable w"
  "stderr (create_logger name w) = stderr w" "handled (create_logger name w) = handled w"
  "next_id (create_logger name w) = Suc (Suc (Suc (next_id w)))"
  "now (create_logger name w) = now w"
  by (simp_all add: create_logger_def get_console_handler_def get_json_handler_def Let_def)







lemma example_lib_times:
  "localtime example_lib (PObj ''1709967900.001234'') = Some example_dt"
  "fromtimestamp example_lib (PObj ''1709967900.001234'') = Some example_dt"
  by (simp_all add: example_lib_def)











lemma example_world_frame:
  "files example_world = Map.empty" "openable example_world = (\<lambda>p. True)"
  "stderr example_world = []" "handled example_world = []" "next_id example_world = 3"
  "now example_world = example_dt"
  by (simp_all add: example_world_def create_logger_frame fresh_world_def numeral_3_eq_3)







section \<open>Properties of the Qt message handler\<close>

lemma cover_loop_idem:
  assumes "list_all plain_name (map fst kvs)" and "distinct (map fst kvs)"
  shows "fst (cover_loop lib (fst (cover_loop lib r kvs)) kvs) = fst (cover_loop lib r kvs)"
proof
  fix name
  note look = cover_loop_lookup [OF assms, of lib]
  have h: "hasattr lib (fst (cover_loop lib r kvs)) name = hasattr lib r name"
    by (auto simp: hasattr_def look split: option.splits)
  show "fst (cover_loop lib (fst (cover_loop lib r kvs)) kvs) name = fst (cover_loop lib r kvs) name"
    unfolding look [of "fst (cover_loop lib r kvs)"] h
    unfolding look [of r]
    by (simp split: option.split)
qed

lemma Filterer_filter_fixed:
  "cover_try lib r = (r, True) \<Longrightarrow> Filterer_filter lib fs r w = Some (True, r, w)"
proof (induction fs)
  case Nil
  show ?case by simp
next
  case (Cons f fs)
  from Cons.prems have "CoverFilter_filter lib r w = Some (True, r, w)"
    using CoverFilter_filter_ok [of lib r w] by simp
  with Cons show ?case by simp
qed

lemma Filterer_filter_cover:
  assumes "r ''cover'' = Some (PDict kvs)"
    and "list_all plain_name (map fst kvs)" and "distinct (map fst kvs)"
    and "PStr ''cover'' \<notin> fst ` set kvs" and "fs \<noteq> []"
  shows "Filterer_filter lib fs r w = Some (True, fst (cover_try lib r), w)"
proof -
  define r1 where "r1 = fst (cover_loop lib r kvs)"
  have t: "cover_try lib r = (r1, True)"
    using assms(1) cover_loop_strings [OF assms(2), of lib r]
    by (simp add: cover_try_def r1_def prod_eq_iff)
  from assms(4) have "map_of kvs (PStr ''cover'') = None"
    by (simp add: map_of_eq_None_iff)
  then have c1: "r1 ''cover'' = Some (PDict kvs)"
    unfolding r1_def cover_loop_lookup [OF assms(2,3)]
    using assms(1) by simp
  have "cover_try lib r1 = (r1, True)"
    using c1 cover_loop_strings [OF assms(2), of lib r1] cover_loop_idem [OF assms(2,3), of lib r]
    by (simp add: cover_try_def r1_def prod_eq_iff)
  note stable = Filterer_filter_fixed [OF this]
  from assms(5) obtain f fs' where fs: "fs = f # fs'" by (cases fs) auto
  have "CoverFilter_filter lib r w = Some (True, r1, w)"
    using CoverFilter_filter_ok [of lib r w] t by simp
  then show ?thesis by (simp add: fs stable t)
qed

lemma qt_log:
  assumes "llevel (loggers w ''Umi-OCR'') = 10" and "lfilters (loggers w ''Umi-OCR'') \<noteq> []"
    and "10 \<le> l"
  shows "\<exists>emitted.
        emitted = fst (cover_try lib (makeRecord ci ''Umi-OCR'' l msg
                         (Some (qt_cover context filename fn)) False False))
      \<and> Logger_log lib ''Umi-OCR'' l msg (Some (qt_cover context filename fn)) False False ci w
          = map_option snd (callHandlers lib (lhandlers (loggers w ''Umi-OCR'')) emitted w)
      \<and> callHandlers lib (lhandlers (loggers w ''Umi-OCR'')) emitted w \<noteq> None
      \<and> emitted ''levelno'' = Some (PInt l)
      \<and> emitted ''levelname'' = Some (PStr (getLevelName l))
      \<and> emitted ''msg'' = Some msg
      \<and> emitted ''module'' = Some (PStr ''qml'')
      \<and> emitted ''cover'' = Some (qt_cover context filename fn)
      \<and> emitted ''funcName'' = Some fn
      \<and> emitted ''filename'' = Some (PStr filename)
      \<and> emitted ''lineno'' = Some (getattr_default context ''line'' (PStr ''?''))"
proof -
  define kvs where "kvs =
     [(PStr ''category'', getattr_default context ''category'' (PStr ''?'')),
      (PStr ''filename'', PStr filename),
      (PStr ''funcName'', fn),
      (PStr ''lineno'', getattr_default context ''line'' (PStr ''?'')),
      (PStr ''version'', getattr_default context ''version'' (PStr ''?'')),
      (PStr ''module'', PStr ''qml'')]"
  have cover: "qt_cover context filename fn = PDict kvs"
    by (simp add: qt_cover_def kvs_def)
  define r where "r = makeRecord ci ''Umi-OCR'' l msg (Some (PDict kvs)) False False"
  have plain: "list_all plain_name (map fst kvs)" by (simp add: kvs_def)
  have dist: "distinct (map fst kvs)" by (simp add: kvs_def)
  have nocover: "PStr ''cover'' \<notin> fst ` set kvs" by (simp add: kvs_def)
  have rc: "r ''cover'' = Some (PDict kvs)" by (simp add: r_def makeRecord_def)
  define emitted where "emitted = fst (cover_try lib r)"
  have "emitted = fst (cover_loop lib r kvs)"
    by (simp add: emitted_def cover_try_def rc)
  note look = cover_loop_lookup [OF plain dist, of lib r, folded this]
  have filt: "Filterer_filter lib (lfilters (loggers w ''Umi-OCR'')) r w = Some (True, emitted, w)"
    unfolding emitted_def
    using Filterer_filter_cover [of r kvs "lfilters (loggers w ''Umi-OCR'')" lib w]
      rc plain dist nocover assms(2) by blast
  have attrs: "r ''levelname'' = Some (PStr (getLevelName l))" "r ''msg'' = Some msg"
    "r ''levelno'' = Some (PInt l)" "hasattr lib r ''module''" "hasattr lib r ''funcName''"
    "hasattr lib r ''filename''" "hasattr lib r ''lineno''"
    by (simp_all add: r_def makeRecord_def LogRecord_def hasattr_def)
  have e1: "emitted ''levelname'' = Some (PStr (getLevelName l))"
    and e2: "emitted ''msg'' = Some msg" and e3: "emitted ''levelno'' = Some (PInt l)"
    and e4: "emitted ''module'' = Some (PStr ''qml'')" and e5: "emitted ''funcName'' = Some fn"
    and e6: "emitted ''cover'' = Some (PDict kvs)"
    and e7: "emitted ''filename'' = Some (PStr filename)"
    and e8: "emitted ''lineno'' = Some (getattr_default context ''line'' (PStr ''?''))"
    using attrs rc by (simp_all add: look kvs_def)
  from callHandlers_total [of emitted l lib "lhandlers (loggers w ''Umi-OCR'')" w] e3
  have ch: "callHandlers lib (lhandlers (loggers w ''Umi-OCR'')) emitted w \<noteq> None"
    by auto
  have eff: "getEffectiveLevel (loggers w ''Umi-OCR'') \<le> l"
    using assms(1,3) by (simp add: getEffectiveLevel_def)
  have log: "Logger_log lib ''Umi-OCR'' l msg (Some (PDict kvs)) False False ci w
          = map_option snd (callHandlers lib (lhandlers (loggers w ''Umi-OCR'')) emitted w)"
    using Logger_log_enabled [OF eff, of lib ci msg "Some (PDict kvs)" False False emitted]
      filt by (simp add: r_def)
  from log ch e1 e2 e3 e4 e5 e6 e7 e8 show ?thesis
    unfolding cover emitted_def r_def by blast
qed

text \<open>
  What the callback does when the file name can be taken (the context's \<open>file\<close> is a
  string, or is missing) and the module's logger is configured (level DEBUG, the override
  filter attached). For each of the five toolkit severities it returns normally, and the
  state it leaves is the state after one pass of the logger's handlers over one record:
  the record that the logging call at level DEBUG, INFO, WARNING, ERROR or CRITICAL (for
  debug, info, warning, critical and fatal) makes for the message, after the override
  filter. That record carries the override map; its \<open>module\<close> is \<open>"qml"\<close>, its \<open>filename\<close>
  and \<open>lineno\<close> are the context's, and its \<open>funcName\<close> is the context's function name, or
  the placeholder \<open>()=>{}\<close> when that name is empty.
\<close>

lemma qt_handler_logs_at_level:
  assumes "mode \<in> {QtDebugMsg, QtInfoMsg, QtWarningMsg, QtCriticalMsg, QtFatalMsg}"
    and "os_path_basename lib (getattr_default context ''file'' (PStr ''?'')) = Some filename"
    and "llevel (loggers w ''Umi-OCR'') = 10" and "lfilters (loggers w ''Umi-OCR'') \<noteq> []"
    and "level = (if mode = QtDebugMsg then 10 else if mode = QtInfoMsg then 20
                  else if mode = QtWarningMsg then 30 else if mode = QtCriticalMsg then 40 else 50)"
    and "funcName = (if truthy (getattr_default context ''function'' (PStr ''?''))
                     then getattr_default context ''function'' (PStr ''?'') else PStr ''()=>{}'')"
  shows "\<exists>emitted.
        emitted = fst (cover_try lib (makeRecord ci ''Umi-OCR'' level msg
                         (Some (qt_cover context filename funcName)) False False))
      \<and> qt_message_handler lib ci mode context msg w
          = map_option snd (callHandlers lib (lhandlers (loggers w ''Umi-OCR'')) emitted w)
      \<and> callHandlers lib (lhandlers (loggers w ''Umi-OCR'')) emitted w \<noteq> None
      \<and> emitted ''levelno'' = Some (PInt level)
      \<and> emitted ''levelname'' =
          Some (PStr (if mode = QtDebugMsg then ''DEBUG'' else if mode = QtInfoMsg then ''INFO''
                      else if mode = QtWarningMsg then ''WARNING''
                      else if mode = QtCriticalMsg then ''ERROR'' else ''CRITICAL''))
      \<and> emitted ''msg'' = Some msg
      \<and> emitted ''cover'' = Some (qt_cover context filename funcName)
      \<and> getitem_str (qt_cover context filename funcName) ''module'' = Some (PStr ''qml'')
      \<and> emitted ''module'' = Some (PStr ''qml'')
      \<and> emitted ''funcName'' = Some funcName
      \<and> emitted ''filename'' = Some (PStr filename)
      \<and> emitted ''lineno'' = Some (getattr_default context ''line'' (PStr ''?''))"
proof -
  have q: "qt_message_handler lib ci mode context msg w =
           Logger_log lib ''Umi-OCR'' level msg (Some (qt_cover context filename funcName)) False False ci w"
    using assms(1,2) by (auto simp: qt_message_handler_def Let_def assms(5,6))
  have l10: "10 \<le> level" by (simp add: assms(5))
  have name: "getLevelName level =
          (if mode = QtDebugMsg then ''DEBUG'' else if mode = QtInfoMsg then ''INFO''
                      else if mode = QtWarningMsg then ''WARNING''
                      else if mode = QtCriticalMsg then ''ERROR'' else ''CRITICAL'')"
    by (simp add: assms(5) getLevelName_def)
  have m: "getitem_str (qt_cover context filename funcName) ''module'' = Some (PStr ''qml'')"
    by (simp add: qt_cover_def)
  from qt_log [OF assms(3,4) l10, of lib ci msg "context" filename funcName] m
  show ?thesis unfolding q name by blast
qed

text \<open>
  The fatal message \<open>"boom"\<close> from line 31 of a QML file, with an empty function name:
  one console line with the symbol of CRITICAL and the placeholder, and one line in the
  log file.
\<close>

lemma example_basename:
  "os_path_basename example_lib (getattr_default example_context ''file'' (PStr ''?'')) = Some ''Main.qml''"
  by (simp add: getattr_default_def example_context_def example_lib_def)

lemma example_funcName:
  "getattr_default example_context ''function'' (PStr ''?'') = PStr []"
  by (simp add: getattr_default_def example_context_def)

lemma qt_emitted:
  "fst (cover_try example_lib (makeRecord example_site ''Umi-OCR'' 50 (PStr ''boom'')
        (Some (qt_cover example_context ''Main.qml'' (PStr ''()=>{}''))) False False)) = example_qt_record"
  by (simp add: cover_try_def makeRecord_def LogRecord_def qt_cover_def hasattr_def setattr_def
        example_lib_def example_context_def getattr_default_def example_qt_record_def)

lemma qt_attrs:
  "example_qt_record ''msg'' = Some (PStr ''boom'')" "example_qt_record ''args'' = Some (PList [])"
  "example_qt_record ''levelname'' = Some (PStr ''CRITICAL'')" "example_qt_record ''levelno'' = Some (PInt 50)"
  "example_qt_record ''created'' = Some (PObj ''1709967900.001234'')"
  "example_qt_record ''funcName'' = Some (PStr ''()=>{}'')" "example_qt_record ''exc_info'' = Some PNone"
  "example_qt_record ''exc_text'' = Some PNone" "example_qt_record ''stack_info'' = Some PNone"
  "example_qt_record ''filename'' = Some (PStr ''Main.qml'')" "example_qt_record ''lineno'' = Some (PInt 31)"
  "example_qt_record ''module'' = Some (PStr ''qml'')" "example_qt_record ''thread'' = Some (PInt 1)"
  "example_qt_record ''threadName'' = Some (PStr ''MainThread'')"
  "example_qt_record ''process'' = Some (PInt 4242)"
  "example_qt_record ''processName'' = Some (PStr ''MainProcess'')"
  "example_qt_record ''name'' = Some (PStr ''Umi-OCR'')" "example_qt_record ''getMessage'' = None"
  by (simp_all add: example_qt_record_def makeRecord_def LogRecord_def example_site_def getLevelName_def)

lemma qt_format:
  "LevelFormatter_format example_lib example_qt_record = (example_qt_formatted, Some ''07:05:00 ! ()=>{} | boom'')"
  by (simp add: LevelFormatter_format_def Formatter_format_def qt_attrs LEVEL_SYMBOLS_def
        getMessage_def example_lib_times example_times formatMessage_def cache_exc_text_def
        add_exc_and_stack_def example_qt_formatted_def Let_def)

lemma qt_formatted_to_dict: "record_to_dict example_lib example_qt_formatted = Some qt_dict"
  by (simp add: record_to_dict_def getMessage_def example_qt_formatted_def qt_attrs
        example_lib_times example_times qt_dict_def)

lemma qt_int: "int_str 31 = ''31''"
  by (simp add: int_str_def decimal.simps digit_char_def)

lemma qt_encode: "iterencode (str_dict qt_dict) = (qt_json, True)"
  by (simp add: str_dict_def qt_dict_def qt_json_def json_object_def example_ints qt_int)

lemma stream_emit_qt:
  "StreamHandler_emit example_lib c example_qt_record w
     = (example_qt_formatted, w\<lparr>stderr := stderr w @ [qt_console]\<rparr>)"
  by (simp add: StreamHandler_emit_def qt_format qt_console_def)

lemma json_emit_qt:
  "openable w (baseFilename j) \<Longrightarrow>
   JsonRotatingFileHandler_emit example_lib j example_qt_formatted w
     = w\<lparr>files := (files w)(baseFilename j \<mapsto> content w (baseFilename j) @ qt_json @ [CHR 0x0A])\<rparr>"
  by (rule emit_success [OF qt_formatted_to_dict qt_encode])

lemma qt_formatted_levelno: "example_qt_formatted ''levelno'' = Some (PInt 50)"
  by (simp add: example_qt_formatted_def qt_attrs)

lemma qt_handler_fatal_with_file:
  "\<exists>w'. qt_message_handler example_lib example_site QtFatalMsg example_context (PStr ''boom'')
          example_world = Some w'
      \<and> stderr w' = [qt_console]
      \<and> files w' ''./logs/2024-03-09.jsonl.txt'' = Some (qt_json @ [CHR 0x0A])
      \<and> handled w' = []"
proof -
  have m: "QtFatalMsg \<in> {QtDebugMsg, QtInfoMsg, QtWarningMsg, QtCriticalMsg, QtFatalMsg}" by simp
  have l: "llevel (loggers example_world ''Umi-OCR'') = 10"
    and fs: "lfilters (loggers example_world ''Umi-OCR'') \<noteq> []"
    by (simp_all add: example_logger)
  from qt_handler_logs_at_level
         [of QtFatalMsg example_lib example_context "''Main.qml''" example_world 50
             "PStr ''()=>{}''" example_site "PStr ''boom''"]
       m example_basename l fs
  have q: "qt_message_handler example_lib example_site QtFatalMsg example_context (PStr ''boom'')
             example_world
           = map_option snd (callHandlers example_lib (lhandlers (loggers example_world ''Umi-OCR''))
                               example_qt_record example_world)"
    by (simp add: example_funcName qt_emitted)
  show ?thesis
    unfolding q example_logger
    by (simp add: qt_attrs qt_formatted_levelno stream_emit_qt json_emit_qt example_world_frame
          content_def)
qed

text \<open>
  The file name is taken first, before the function name and before \<open>mode\<close> is looked
  at: when the context's \<open>file\<close> is there and is not a string, \<open>os.path.basename\<close> raises
  and the callback is left with that exception for every \<open>mode\<close>, without a logging call.
\<close>

lemma qt_handler_needs_file_name:
  assumes "context ''file'' = Some v" and "\<forall>p. v \<noteq> PStr p"
  shows "qt_message_handler lib ci mode context msg w = None"
proof -
  from assms have "os_path_basename lib (getattr_default context ''file'' (PStr ''?'')) = None"
    by (cases v) (simp_all add: getattr_default_def)
  then show ?thesis by (simp add: qt_message_handler_def)
qed

text \<open>
  C7 (the code does not do this). A fatal message with an empty function name whose
  context has no file name, \<open>context.file = None\<close>, as the toolkit passes it for a message
  without a source location: the callback raises at \<open>os.path.basename\<close> and nothing is
  logged, where the specification has the message emitted at CRITICAL with the placeholder
  as function name. The callback guards the function name against an empty value and the
  attribute \<open>file\<close> against being missing, but not against \<open>None\<close>.
\<close>

theorem qt_handler_fatal_without_file_raises:
  "getattr_default example_context_no_file ''file'' (PStr ''?'') = PNone
   \<and> getattr_default example_context_no_file ''function'' (PStr ''?'') = PStr []
   \<and> qt_message_handler example_lib example_site QtFatalMsg example_context_no_file (PStr ''boom'')
       example_world = None"
proof -
  have f: "example_context_no_file ''file'' = Some PNone"
    and fn: "example_context_no_file ''function'' = Some (PStr [])"
    by (simp_all add: example_context_no_file_def)
  have n: "\<forall>p. PNone \<noteq> PStr p" by simp
  from f fn n
    qt_handler_needs_file_name
      [of example_context_no_file PNone example_lib example_site QtFatalMsg "PStr ''boom''"
          example_world]
  show ?thesis
    by (simp add: getattr_default_def)
qed

lemma qt_handler_unknown_mode_never_logs:
  assumes "mode \<notin> {QtDebugMsg, QtInfoMsg, QtWarningMsg, QtCriticalMsg, QtFatalMsg}"
  shows "qt_message_handler lib ci mode context msg w = None
       \<or> qt_message_handler lib ci mode context msg w = Some w"
  using assms by (auto simp: qt_message_handler_def Let_def split: option.splits)




end
